theory Spec2Isabelle
  imports Complex_Main "HOL-Library.Log_Nat"
begin

section \<open>Torque2Warp10: a shallow embedding\<close>

text \<open>
  The repository holds three variants of one Go program, each a \<^verbatim>\<open>package main\<close> of
  its own: \<^verbatim>\<open>src/main.go\<close> (no gate, no acknowledgment), \<^verbatim>\<open>src/unnamed/part_001\<close>
  (one allowed user, timestamp suffixed with \<^verbatim>\<open>000\<close>) and \<^verbatim>\<open>src/unnamed/part_000\<close>
  (a list of allowed users). What the three share is defined once; what differs carries
  the suffix \<open>_main\<close>, \<open>_p001\<close> or \<open>_p000\<close>.
\<close>

subsection \<open>Geo Time Series records and their wire format\<close>

record GTS =
  TS :: string
  Lat :: string
  Long :: string
  Elev :: string
  Name :: string
  Labels :: string
  Value :: string

text \<open>\<^verbatim>\<open>func (gts GTS) Print() []byte\<close>: the same expression in the three files.\<close>

definition Print :: "GTS \<Rightarrow> string" where
  "Print gts = TS gts @ ''/'' @ Lat gts @ '':'' @ Long gts @ ''/'' @ Elev gts @ '' ''
     @ Name gts @ ''{'' @ Labels gts @ ''}'' @ '' '' @ Value gts"

record TorqueKey =
  MetricName :: string
  Tag :: string

type_synonym TorqueKeys = "string \<rightharpoonup> TorqueKey"

type_synonym Users = "string list"

subsection \<open>Query parameters\<close>

text \<open>
  \<^verbatim>\<open>url.Values\<close> is a \<^verbatim>\<open>map[string][]string\<close>. It is modelled as an association list:
  the order of the list stands for the order in which \<^verbatim>\<open>range\<close> visits the keys, which
  Go leaves unspecified. A Go map holds every key once, so the queries a handler can
  receive are the lists with distinct keys; the properties below hold for every list.
  \<^verbatim>\<open>Get\<close> returns the first value of a key, and the empty string when the key is absent
  or has no value.
\<close>

type_synonym Values = "(string \<times> string list) list"

definition Get :: "Values \<Rightarrow> string \<Rightarrow> string" where
  "Get v key = (case map_of v key of
                  None \<Rightarrow> []
                | Some vs \<Rightarrow> (case vs of [] \<Rightarrow> [] | x # _ \<Rightarrow> x))"

subsection \<open>Binary64 arithmetic, as far as the handler uses it\<close>

text \<open>
  A \<^verbatim>\<open>float64\<close> is a finite value (a rational, the sign of zero dropped), an infinity or
  a NaN. \<open>f64_round\<close> rounds a rational to the nearest binary64 value, ties to even:
  53 significant bits, the smallest exponent of a unit in the last place being \<open>-1074\<close>,
  and overflow to an infinity from \<open>2 ^ 1024\<close> on.
\<close>

datatype float64 = Finite rat | PosInf | NegInf | NaN

definition pow2 :: "int \<Rightarrow> rat" where
  "pow2 e = (if 0 \<le> e then 2 ^ nat e else 1 / 2 ^ nat (- e))"

definition round_half_even :: "rat \<Rightarrow> int" where
  "round_half_even x =
     (let f = \<lfloor>x\<rfloor>; d = x - of_int f in
      if d < 1 / 2 then f
      else if 1 / 2 < d then f + 1
      else if even f then f else f + 1)"

text \<open>The integer \<open>e\<close> with \<open>2 ^ e \<le> x < 2 ^ (e + 1)\<close>, for a positive \<open>x\<close>.\<close>

definition ilog2 :: "rat \<Rightarrow> int" where
  "ilog2 x =
     (let (p, q) = quotient_of x; d = bitlen p - bitlen q in
      if pow2 d \<le> x then d else d - 1)"

definition f64_round :: "rat \<Rightarrow> float64" where
  "f64_round x =
     (if x = 0 then Finite 0
      else
        let a = \<bar>x\<bar>;
            u = max (ilog2 a - 52) (- 1074);
            y = of_int (round_half_even (a / pow2 u)) * pow2 u
        in if pow2 1024 \<le> y then (if 0 < x then PosInf else NegInf)
           else Finite (if 0 < x then y else - y))"

fun f64_mul :: "float64 \<Rightarrow> float64 \<Rightarrow> float64" where
  "f64_mul NaN _ = NaN"
| "f64_mul _ NaN = NaN"
| "f64_mul (Finite a) (Finite b) = f64_round (a * b)"
| "f64_mul (Finite a) PosInf = (if a = 0 then NaN else if 0 < a then PosInf else NegInf)"
| "f64_mul (Finite a) NegInf = (if a = 0 then NaN else if 0 < a then NegInf else PosInf)"
| "f64_mul PosInf (Finite b) = (if b = 0 then NaN else if 0 < b then PosInf else NegInf)"
| "f64_mul NegInf (Finite b) = (if b = 0 then NaN else if 0 < b then NegInf else PosInf)"
| "f64_mul PosInf PosInf = PosInf"
| "f64_mul PosInf NegInf = NegInf"
| "f64_mul NegInf PosInf = NegInf"
| "f64_mul NegInf NegInf = PosInf"

text \<open>Truncation toward zero.\<close>

definition trunc :: "rat \<Rightarrow> int" where
  "trunc x = (if 0 \<le> x then \<lfloor>x\<rfloor> else \<lceil>x\<rceil>)"

subsection \<open>Decimal rendering: \<^verbatim>\<open>strconv.Itoa\<close>\<close>

function digits :: "int \<Rightarrow> string" where
  "digits n = (if n < 10 then [''0123456789'' ! nat n]
               else digits (n div 10) @ [''0123456789'' ! nat (n mod 10)])"
  by pat_completeness auto
termination
  by (relation "measure nat") auto

declare digits.simps [simp del]

definition Itoa :: "int \<Rightarrow> string" where
  "Itoa i = (if i < 0 then CHR ''-'' # digits (- i) else digits i)"

subsection \<open>What the program does not contain: library, platform and network\<close>

record Request =
  Method :: string
  URL :: string
  Header :: "(string \<times> string) list"
  Body :: string

record Response =
  StatusCode :: int
  RespBody :: string

text \<open>
  The environment of a run. None of it is code of the repository, so all of it is a
  parameter:
  \<^item> \<open>ParseFloat\<close> is \<^verbatim>\<open>strconv.ParseFloat(s, 64)\<close>: the value and the error (\<open>None\<close> is
    \<^verbatim>\<open>nil\<close>);
  \<^item> \<open>int_bits\<close> is the width of Go's \<^verbatim>\<open>int\<close>, and \<open>conv_oob\<close> what the platform's
    conversion \<^verbatim>\<open>int(f)\<close> yields for a float the type cannot represent (the language
    leaves it to the implementation);
  \<^item> \<open>valid_url\<close> tells whether \<^verbatim>\<open>http.NewRequest\<close> can parse a URL;
  \<^item> \<open>client_Do\<close> is the network: the reply \<^verbatim>\<open>(resp, err)\<close> of \<^verbatim>\<open>client.Do\<close> to the
    \<open>n\<close>-th outbound request, either of which may be \<^verbatim>\<open>nil\<close>.
\<close>

record env =
  ParseFloat :: "string \<Rightarrow> float64 \<times> string option"
  int_bits :: nat
  conv_oob :: "float64 \<Rightarrow> int"
  valid_url :: "string \<Rightarrow> bool"
  client_Do :: "nat \<Rightarrow> Request \<Rightarrow> Response option \<times> string option"

text \<open>The conversion \<^verbatim>\<open>int(f)\<close> of a \<^verbatim>\<open>float64\<close>.\<close>

definition go_int :: "env \<Rightarrow> float64 \<Rightarrow> int" where
  "go_int env f =
     (case f of
        Finite x \<Rightarrow>
          (if - (2 ^ (int_bits env - 1)) \<le> trunc x \<and> trunc x < 2 ^ (int_bits env - 1)
           then trunc x else conv_oob env f)
      | _ \<Rightarrow> conv_oob env f)"

definition NewRequest :: "env \<Rightarrow> string \<Rightarrow> string \<Rightarrow> string \<Rightarrow> Request option" where
  "NewRequest env method url body =
     (if valid_url env url
      then Some \<lparr>Method = method, URL = url, Header = [], Body = body\<rparr>
      else None)"

text \<open>\<^verbatim>\<open>Header.Set\<close>: the key's former values are replaced.\<close>

definition Header_Set :: "(string \<times> string) list \<Rightarrow> string \<Rightarrow> string \<Rightarrow> (string \<times> string) list" where
  "Header_Set h k v = filter (\<lambda>kv. \<not> fst kv = k) h @ [(k, v)]"

subsection \<open>The state a handler changes\<close>

datatype logarg = S string | I int | E string | Q Values

record world =
  logs :: "logarg list list"
  posts :: "Request list"
  header :: "(string \<times> string) list"
  written :: string

datatype panic = NilDereference | PanicErr string | LogPanic "logarg list"

type_synonym result = "panic \<times> world + world"

definition world_of :: "result \<Rightarrow> world" where
  "world_of r = (case r of Inl pw \<Rightarrow> snd pw | Inr w \<Rightarrow> w)"

definition Println :: "logarg list \<Rightarrow> world \<Rightarrow> world" where
  "Println args w = w\<lparr>logs := logs w @ [args]\<rparr>"

definition Header_Set_w :: "string \<Rightarrow> string \<Rightarrow> world \<Rightarrow> world" where
  "Header_Set_w k v w = w\<lparr>header := Header_Set (header w) k v\<rparr>"

definition Write :: "string \<Rightarrow> world \<Rightarrow> world" where
  "Write b w = w\<lparr>written := written w @ b\<rparr>"

text \<open>The server hands every request a response writer of its own.\<close>

definition fresh :: "world \<Rightarrow> world" where
  "fresh w = w\<lparr>header := [], written := []\<rparr>"

text \<open>
  What the caller receives. A handler that returns without \<^verbatim>\<open>WriteHeader\<close> answers with
  status 200, the headers it set and the bytes it wrote. A handler that panics before
  writing anything has its connection closed by the server: the caller gets no response.
\<close>

record http_response =
  status_code :: int
  content_type :: "string option"
  payload :: string

definition response_of :: "result \<Rightarrow> http_response option" where
  "response_of r =
     (case r of
        Inl pw \<Rightarrow> None
      | Inr w \<Rightarrow> Some \<lparr>status_code = 200, content_type = map_of (header w) ''Content-Type'',
                        payload = written w\<rparr>)"

text \<open>\<^verbatim>\<open>for key := range query\<close>: the body runs once per key; a panic ends the loop.\<close>

fun range_loop :: "(string \<Rightarrow> world \<Rightarrow> result) \<Rightarrow> string list \<Rightarrow> world \<Rightarrow> result" where
  "range_loop f [] w = Inr w"
| "range_loop f (key # keys) w =
     (case f key w of Inl pw \<Rightarrow> Inl pw | Inr w' \<Rightarrow> range_loop f keys w')"

record globals =
  warp10Endpoint :: string
  warp10Token :: string
  torqueKeys :: TorqueKeys
  users :: Users
  user :: string


subsection \<open>Forwarding one record: \<^verbatim>\<open>sendToWarp10\<close>\<close>

text \<open>
  In the three files the error of \<^verbatim>\<open>http.NewRequest\<close> is overwritten unread, and
  \<^verbatim>\<open>req.Header.Set\<close> dereferences a \<^verbatim>\<open>nil\<close> request when it failed.

  \<^verbatim>\<open>src/main.go\<close>: the record is logged, the request sent, and a transport error panics.
  The deferred \<^verbatim>\<open>resp.Body.Close()\<close> reads \<^verbatim>\<open>resp.Body\<close> when the \<^verbatim>\<open>defer\<close> statement
  runs.
\<close>

definition sendToWarp10_main :: "env \<Rightarrow> globals \<Rightarrow> GTS \<Rightarrow> world \<Rightarrow> result" where
  "sendToWarp10_main env g gts w =
     (let w1 = Println [S (Print gts)] w in
      case NewRequest env ''POST'' (warp10Endpoint g @ ''/api/v0/update'') (Print gts) of
        None \<Rightarrow> Inl (NilDereference, w1)
      | Some req0 \<Rightarrow>
          (let req = req0\<lparr>Header := Header_Set (Header req0) ''X-Warp10-Token'' (warp10Token g)\<rparr>;
               reply = client_Do env (length (posts w1)) req;
               w2 = w1\<lparr>posts := posts w1 @ [req]\<rparr>
           in case snd reply of
                Some e \<Rightarrow> Inl (PanicErr e, w2)
              | None \<Rightarrow> (case fst reply of
                           None \<Rightarrow> Inl (NilDereference, w2)
                         | Some resp \<Rightarrow> Inr w2)))"

text \<open>
  \<^verbatim>\<open>src/unnamed/part_000\<close>: \<^verbatim>\<open>resp.StatusCode\<close> is read first, then a status other than
  200 panics through \<^verbatim>\<open>log.Panicln\<close> (which logs its arguments), then the error is
  looked at and logged.
\<close>

definition sendToWarp10_p000 :: "env \<Rightarrow> globals \<Rightarrow> GTS \<Rightarrow> world \<Rightarrow> result" where
  "sendToWarp10_p000 env g gts w =
     (case NewRequest env ''POST'' (warp10Endpoint g @ ''/api/v0/update'') (Print gts) of
        None \<Rightarrow> Inl (NilDereference, w)
      | Some req0 \<Rightarrow>
          (let req = req0\<lparr>Header := Header_Set (Header req0) ''X-Warp10-Token'' (warp10Token g)\<rparr>;
               reply = client_Do env (length (posts w)) req;
               w1 = w\<lparr>posts := posts w @ [req]\<rparr>
           in case fst reply of
                None \<Rightarrow> Inl (NilDereference, w1)
              | Some resp \<Rightarrow>
                  if StatusCode resp = 200
                  then Inr (case snd reply of None \<Rightarrow> w1 | Some e \<Rightarrow> Println [E e] w1)
                  else Inl (LogPanic [S ''Error'', I (StatusCode resp), S '':'', S (RespBody resp)],
                            Println [S ''Error'', I (StatusCode resp), S '':'', S (RespBody resp)] w1)))"

text \<open>
  \<^verbatim>\<open>src/unnamed/part_001\<close>: as \<^verbatim>\<open>part_000\<close>, but \<^verbatim>\<open>Print\<close> itself logs the record, and
  the status is logged after the checks.
\<close>

definition sendToWarp10_p001 :: "env \<Rightarrow> globals \<Rightarrow> GTS \<Rightarrow> world \<Rightarrow> result" where
  "sendToWarp10_p001 env g gts w =
     (let w0 = Println [S (Print gts)] w in
      case NewRequest env ''POST'' (warp10Endpoint g @ ''/api/v0/update'') (Print gts) of
        None \<Rightarrow> Inl (NilDereference, w0)
      | Some req0 \<Rightarrow>
          (let req = req0\<lparr>Header := Header_Set (Header req0) ''X-Warp10-Token'' (warp10Token g)\<rparr>;
               reply = client_Do env (length (posts w0)) req;
               w1 = w0\<lparr>posts := posts w0 @ [req]\<rparr>
           in case fst reply of
                None \<Rightarrow> Inl (NilDereference, w1)
              | Some resp \<Rightarrow>
                  if StatusCode resp = 200
                  then Inr (Println [S ''HTTP Return code'', I (StatusCode resp), S ''-'',
                                     S (Name gts), S '':'', S (Value gts)]
                             (case snd reply of None \<Rightarrow> w1 | Some e \<Rightarrow> Println [E e] w1))
                  else Inl (LogPanic [S ''Error'', I (StatusCode resp), S '':'', S (RespBody resp)],
                            Println [S ''Error'', I (StatusCode resp), S '':'', S (RespBody resp)] w1)))"

subsection \<open>The handler: \<^verbatim>\<open>query\<close>\<close>

fun stringInSlice :: "string \<Rightarrow> string list \<Rightarrow> bool" where
  "stringInSlice str [] = False"
| "stringInSlice str (v # list) = (if v = str then True else stringInSlice str list)"

text \<open>\<^verbatim>\<open>src/main.go\<close>: no gate, the directory's tag is the label string, nothing is written.\<close>

definition forward_main :: "env \<Rightarrow> globals \<Rightarrow> Values \<Rightarrow> string \<Rightarrow> string \<Rightarrow> string \<Rightarrow> string
    \<Rightarrow> string \<Rightarrow> world \<Rightarrow> result" where
  "forward_main env g query time latitude longitude altitude key w =
     (case torqueKeys g key of
        None \<Rightarrow> Inr w
      | Some val \<Rightarrow>
          sendToWarp10_main env g
            \<lparr>TS = time, Lat = latitude, Long = longitude, Elev = altitude,
             Name = MetricName val, Labels = Tag val, Value = Get query key\<rparr> w)"

definition query_main :: "env \<Rightarrow> globals \<Rightarrow> Values \<Rightarrow> world \<Rightarrow> result" where
  "query_main env g query w =
     (let longitude = Get query ''kff1005'';
          latitude = Get query ''kff1006'';
          altitude = Get query ''kff1010'';
          time = Get query ''time'';
          w1 = Println [Q query] w
      in range_loop (forward_main env g query time latitude longitude altitude)
           (map fst query) w1)"

text \<open>
  The body of the loop of \<^verbatim>\<open>part_000\<close> and \<^verbatim>\<open>part_001\<close>: \<^verbatim>\<open>val\<close> is a copy of the
  directory's entry, so the assignment to \<^verbatim>\<open>val.Tag\<close> leaves the directory as it is.
\<close>

definition forward_p000 :: "env \<Rightarrow> globals \<Rightarrow> Values \<Rightarrow> string \<Rightarrow> string \<Rightarrow> string \<Rightarrow> string
    \<Rightarrow> string \<Rightarrow> string \<Rightarrow> world \<Rightarrow> result" where
  "forward_p000 env g query ident time latitude longitude altitude key w =
     (case torqueKeys g key of
        None \<Rightarrow> Inr w
      | Some val0 \<Rightarrow>
          (let val = (if length (Tag val0) = 0
                      then val0\<lparr>Tag := ''id='' @ ident\<rparr>
                      else val0\<lparr>Tag := ''id='' @ ident @ '','' @ Tag val0\<rparr>)
           in sendToWarp10_p000 env g
                \<lparr>TS = time, Lat = latitude, Long = longitude, Elev = altitude,
                 Name = MetricName val, Labels = Tag val, Value = Get query key\<rparr> w))"

definition forward_p001 :: "env \<Rightarrow> globals \<Rightarrow> Values \<Rightarrow> string \<Rightarrow> string \<Rightarrow> string \<Rightarrow> string
    \<Rightarrow> string \<Rightarrow> string \<Rightarrow> world \<Rightarrow> result" where
  "forward_p001 env g query ident time latitude longitude altitude key w =
     (case torqueKeys g key of
        None \<Rightarrow> Inr w
      | Some val0 \<Rightarrow>
          (let val = (if length (Tag val0) = 0
                      then val0\<lparr>Tag := ''id='' @ ident\<rparr>
                      else val0\<lparr>Tag := ''id='' @ ident @ '','' @ Tag val0\<rparr>)
           in sendToWarp10_p001 env g
                \<lparr>TS = time @ ''000'', Lat = latitude, Long = longitude, Elev = altitude,
                 Name = MetricName val, Labels = Tag val, Value = Get query key\<rparr> w))"

text \<open>
  Lines 82 to 86 of \<^verbatim>\<open>part_000\<close> (78 to 82 of \<^verbatim>\<open>part_001\<close>): the elevation is parsed,
  an error is logged and nothing else is done about it, and the value that came with it
  is multiplied by \<^verbatim>\<open>1000.0\<close>, converted to \<^verbatim>\<open>int\<close> and printed in decimal.
\<close>

definition altitude_of :: "env \<Rightarrow> float64 \<Rightarrow> string" where
  "altitude_of env i = Itoa (go_int env (f64_mul i (Finite 1000)))"

definition log_err :: "string option \<Rightarrow> world \<Rightarrow> world" where
  "log_err err w = (case err of None \<Rightarrow> w | Some e \<Rightarrow> Println [E e] w)"

definition query_p000 :: "env \<Rightarrow> globals \<Rightarrow> Values \<Rightarrow> world \<Rightarrow> result" where
  "query_p000 env g query w =
     (if stringInSlice (Get query ''eml'') (users g) then
        Inr (Write ''OK!'' (Header_Set_w ''Content-Type'' ''text/html''
               (Println [S ''unauthorized''] w)))
      else if length (Get query ''kff1005'') = 0 \<or> length (Get query ''kff1006'') = 0
              \<or> length (Get query ''kff1010'') = 0 then
        Inr (Write ''OK!'' (Header_Set_w ''Content-Type'' ''text/html''
               (Println [S ''No GPS Data, moving on''] w)))
      else
        let ident = Get query ''id'';
            longitude = Get query ''kff1005'';
            latitude = Get query ''kff1006'';
            parsed = ParseFloat env (Get query ''kff1010'');
            w1 = log_err (snd parsed) w;
            altitude = altitude_of env (fst parsed);
            time = Get query ''time''
        in case range_loop (forward_p000 env g query ident time latitude longitude altitude)
                  (map fst query) w1 of
             Inl pw \<Rightarrow> Inl pw
           | Inr w2 \<Rightarrow> Inr (Write ''OK!'' (Header_Set_w ''Content-Type'' ''text/html'' w2)))"

definition query_p001 :: "env \<Rightarrow> globals \<Rightarrow> Values \<Rightarrow> world \<Rightarrow> result" where
  "query_p001 env g query w =
     (let w0 = Println [S ''user:'', S (Get query ''eml'')]
                (Println [S ''elevation:'', S (Get query ''kff1010'')]
                  (Println [S ''latitude:'', S (Get query ''kff1006'')]
                    (Println [S ''longitude:'', S (Get query ''kff1005'')]
                      (Println [Q query]
                        (Println [S ''Received a call HTTP, GET Keys:''] w)))))
      in
      if length (Get query ''kff1005'') = 0 \<or> length (Get query ''kff1006'') = 0
         \<or> length (Get query ''kff1010'') = 0 \<or> Get query ''eml'' = user g then
        Inr (Write ''OK!'' (Header_Set_w ''Content-Type'' ''text/html''
               (Println [S ''No GPS Data, moving on''] w0)))
      else
        let ident = Get query ''id'';
            longitude = Get query ''kff1005'';
            latitude = Get query ''kff1006'';
            parsed = ParseFloat env (Get query ''kff1010'');
            w1 = log_err (snd parsed) w0;
            altitude = altitude_of env (fst parsed);
            time = Get query ''time''
        in case range_loop (forward_p001 env g query ident time latitude longitude altitude)
                  (map fst query) w1 of
             Inl pw \<Rightarrow> Inl pw
           | Inr w2 \<Rightarrow> Inr (Write ''OK!'' (Header_Set_w ''Content-Type'' ''text/html'' w2)))"


subsection \<open>Start-up: \<^verbatim>\<open>init\<close>\<close>

text \<open>
  \<^verbatim>\<open>os.Getenv\<close> yields the empty string for a variable that is not set. The log lines of
  \<^verbatim>\<open>init\<close> are left out of the model.
\<close>

record os_env =
  WARP10_ENDPOINT :: string
  WARP10_TOKEN :: string
  ALLOWED_USERS :: string

datatype exit = Exit int | InitPanic "logarg list" | IndexOutOfRange

text \<open>\<^verbatim>\<open>strings.Split(s, ",")\<close>: the substrings between the commas, one more than commas.\<close>

fun Split_comma :: "string \<Rightarrow> string list" where
  "Split_comma [] = [[]]"
| "Split_comma (c # cs) =
     (if c = CHR '','' then [] # Split_comma cs
      else (case Split_comma cs of [] \<Rightarrow> [[c]] | x # xs \<Rightarrow> (c # x) # xs))"

text \<open>
  The table fetched by \<^verbatim>\<open>http.Get\<close> is an error, or a body that the CSV reader either
  rejects or splits into records. \<^verbatim>\<open>ReadAll\<close> with \<^verbatim>\<open>FieldsPerRecord = 3\<close> fails when a
  record has another number of fields.
\<close>

type_synonym fetched = "string + (string + string list list)"

definition ReadAll :: "nat \<Rightarrow> string + string list list \<Rightarrow> string + string list list" where
  "ReadAll FieldsPerRecord src =
     (case src of
        Inl err \<Rightarrow> Inl err
      | Inr records \<Rightarrow>
          if list_all (\<lambda>r. length r = FieldsPerRecord) records then Inr records
          else Inl ''wrong number of fields'')"

text \<open>
  \<^verbatim>\<open>for key, each := range rawCSVdata\<close>: the row of index 0 is skipped; an index beyond a
  row's length would panic.
\<close>

fun feed :: "nat \<Rightarrow> string list list \<Rightarrow> TorqueKeys \<Rightarrow> exit + TorqueKeys" where
  "feed key [] m = Inr m"
| "feed key (each # rest) m =
     (if \<not> key = 0 then
        (if length each < 3 then Inl IndexOutOfRange
         else feed (Suc key) rest
                (m(each ! 0 \<mapsto> \<lparr>MetricName = each ! 1, Tag = each ! 2\<rparr>)))
      else feed (Suc key) rest m)"

text \<open>The part of \<^verbatim>\<open>init\<close> that the three files share, from the check of the tokens on.\<close>

definition load_keys :: "os_env \<Rightarrow> fetched \<Rightarrow> exit + TorqueKeys" where
  "load_keys e got =
     (if length (WARP10_ENDPOINT e) = 0 \<or> length (WARP10_TOKEN e) = 0 then Inl (Exit 1)
      else case got of
        Inl err \<Rightarrow> Inl (Exit 1)
      | Inr body \<Rightarrow>
          (case ReadAll 3 body of
             Inl err \<Rightarrow> Inl (Exit 1)
           | Inr rawCSVdata \<Rightarrow> feed 0 rawCSVdata Map.empty))"

definition init_main :: "os_env \<Rightarrow> fetched \<Rightarrow> exit + globals" where
  "init_main e got =
     (case load_keys e got of
        Inl x \<Rightarrow> Inl x
      | Inr keys \<Rightarrow> Inr \<lparr>warp10Endpoint = WARP10_ENDPOINT e, warp10Token = WARP10_TOKEN e,
                         torqueKeys = keys, users = [], user = []\<rparr>)"

definition init_p001 :: "os_env \<Rightarrow> fetched \<Rightarrow> exit + globals" where
  "init_p001 e got =
     (case load_keys e got of
        Inl x \<Rightarrow> Inl x
      | Inr keys \<Rightarrow> Inr \<lparr>warp10Endpoint = WARP10_ENDPOINT e, warp10Token = WARP10_TOKEN e,
                         torqueKeys = keys, users = [], user = ALLOWED_USERS e\<rparr>)"

text \<open>\<^verbatim>\<open>part_000\<close>: the allowed users are split off the variable and counted first.\<close>

definition init_p000 :: "os_env \<Rightarrow> fetched \<Rightarrow> exit + globals" where
  "init_p000 e got =
     (let result = Split_comma (ALLOWED_USERS e);
          users1 = foldl (\<lambda>us u. us @ [u]) [] result
      in if length users1 = 0 then Inl (InitPanic [S ''No User registered!''])
         else case load_keys e got of
                Inl x \<Rightarrow> Inl x
              | Inr keys \<Rightarrow> Inr \<lparr>warp10Endpoint = WARP10_ENDPOINT e, warp10Token = WARP10_TOKEN e,
                                 torqueKeys = keys, users = users1, user = []\<rparr>)"


subsection \<open>Vocabulary of the properties\<close>

text \<open>The address every record is posted to.\<close>

definition update_url :: "globals \<Rightarrow> string" where
  "update_url g = warp10Endpoint g @ ''/api/v0/update''"

text \<open>The outbound call that carries a record.\<close>

definition request_for :: "globals \<Rightarrow> GTS \<Rightarrow> Request" where
  "request_for g gts =
     \<lparr>Method = ''POST'', URL = update_url g,
      Header = [(''X-Warp10-Token'', warp10Token g)], Body = Print gts\<rparr>"

text \<open>The outbound calls made during a run that started in \<open>w\<close> and ended as \<open>r\<close>.\<close>

definition forwarded :: "world \<Rightarrow> result \<Rightarrow> Request list" where
  "forwarded w r = drop (length (posts w)) (posts (world_of r))"

text \<open>A datastore that answers every call with a response of status 200.\<close>

definition answers_200 :: "env \<Rightarrow> bool" where
  "answers_200 env =
     (\<forall>n req. \<exists>resp e. client_Do env n req = (Some resp, e) \<and> StatusCode resp = 200)"

definition acknowledgment :: http_response where
  "acknowledgment = \<lparr>status_code = 200, content_type = Some ''text/html'', payload = ''OK!''\<rparr>"

text \<open>
  The record that the handler of \<^verbatim>\<open>part_000\<close> builds for a query parameter \<open>key\<close> whose
  directory entry is \<open>val\<close> (the literal of line 104, its variables replaced by what
  lines 79 to 102 assign to them), then the one of \<^verbatim>\<open>part_001\<close> (line 100) and the one
  of \<^verbatim>\<open>main.go\<close> (line 65).
\<close>

definition record_p000 :: "env \<Rightarrow> Values \<Rightarrow> string \<Rightarrow> TorqueKey \<Rightarrow> GTS" where
  "record_p000 env q key val =
     \<lparr>TS = Get q ''time'', Lat = Get q ''kff1006'', Long = Get q ''kff1005'',
      Elev = altitude_of env (fst (ParseFloat env (Get q ''kff1010''))),
      Name = MetricName val,
      Labels = (if Tag val = [] then ''id='' @ Get q ''id''
                else ''id='' @ Get q ''id'' @ '','' @ Tag val),
      Value = Get q key\<rparr>"

definition record_p001 :: "env \<Rightarrow> Values \<Rightarrow> string \<Rightarrow> TorqueKey \<Rightarrow> GTS" where
  "record_p001 env q key val = (record_p000 env q key val)\<lparr>TS := Get q ''time'' @ ''000''\<rparr>"


text \<open>One call per key that the directory knows, in the order of the keys.\<close>

definition calls :: "globals \<Rightarrow> (string \<Rightarrow> TorqueKey \<Rightarrow> GTS) \<Rightarrow> string list \<Rightarrow> Request list" where
  "calls g record keys =
     List.map_filter (\<lambda>key. map_option (\<lambda>val. request_for g (record key val)) (torqueKeys g key))
       keys"

subsection \<open>Concrete runs\<close>

text \<open>
  A library stub that answers as \<^verbatim>\<open>strconv.ParseFloat\<close> does on the strings used below:
  the nearest binary64 value of a decimal numeral; zero and a syntax error for a string
  that is no number; an infinity and a range error for a numeral beyond the range of
  \<^verbatim>\<open>float64\<close>. The platform is a 64-bit one on which the conversion of a float that
  \<^verbatim>\<open>int\<close> cannot hold yields the smallest \<^verbatim>\<open>int\<close> (as on amd64).
\<close>

definition ParseFloat_ex :: "string \<Rightarrow> float64 \<times> string option" where
  "ParseFloat_ex s =
     (if s = ''12.345'' then (f64_round (12345 / 1000), None)
      else if s = ''12.3456'' then (f64_round (123456 / 10000), None)
      else if s = ''0'' then (f64_round 0, None)
      else if s = ''1e400'' then (PosInf, Some ''value out of range'')
      else (Finite 0, Some ''invalid syntax''))"

definition env_ok :: env where
  "env_ok = \<lparr>ParseFloat = ParseFloat_ex, int_bits = 64, conv_oob = (\<lambda>f. - (2 ^ 63)),
             valid_url = (\<lambda>u. True),
             client_Do = (\<lambda>n req. (Some \<lparr>StatusCode = 200, RespBody = []\<rparr>, None))\<rparr>"


definition env_down :: env where
  "env_down = env_ok\<lparr>client_Do := (\<lambda>n req. (None, Some ''connection refused''))\<rparr>"

definition g_ex :: globals where
  "g_ex = \<lparr>warp10Endpoint = ''http://warp10'', warp10Token = ''secret'',
           torqueKeys = [''kd'' \<mapsto> \<lparr>MetricName = ''speed'', Tag = []\<rparr>,
                         ''kc'' \<mapsto> \<lparr>MetricName = ''rpm'', Tag = ''type=sensor''\<rparr>],
           users = [''alice@example.com''], user = ''alice@example.com''\<rparr>"

definition w_ex :: world where
  "w_ex = \<lparr>logs = [], posts = [], header = [], written = []\<rparr>"

text \<open>A request of a caller \<open>eml\<close> with an elevation \<open>elev\<close> and two known field codes.\<close>

definition q_ex :: "string \<Rightarrow> string \<Rightarrow> Values" where
  "q_ex eml elev =
     [(''eml'', [eml]), (''id'', [''42'']), (''time'', [''1500000000000'']),
      (''kff1005'', [''3.0'']), (''kff1006'', [''45.0'']), (''kff1010'', [elev]),
      (''kd'', [''87'']), (''session'', [''9'']), (''kc'', [''3000''])]"

text \<open>The same request without its longitude.\<close>

definition q_nogps :: "string \<Rightarrow> Values" where
  "q_nogps eml =
     [(''eml'', [eml]), (''id'', [''42'']), (''time'', [''1500000000000'']),
      (''kff1006'', [''45.0'']), (''kff1010'', [''12.345'']), (''kd'', [''87''])]"

definition env_vars_ex :: os_env where
  "env_vars_ex = \<lparr>WARP10_ENDPOINT = ''http://warp10'', WARP10_TOKEN = ''secret'',
                  ALLOWED_USERS = []\<rparr>"

definition csv_ex :: "string list list" where
  "csv_ex = [[''key'', ''name'', ''tag''], [''kd'', ''velocity'', ''unit=kmh''],
             [''kc'', ''rpm'', ''type=sensor''], [''kd'', ''speed'', []]]"


text \<open>What \<^verbatim>\<open>init\<close> of \<^verbatim>\<open>part_000\<close> leaves behind on \<open>env_vars_ex\<close> and \<open>csv_ex\<close>.\<close>

definition g_csv :: globals where
  "g_csv = \<lparr>warp10Endpoint = ''http://warp10'', warp10Token = ''secret'',
            torqueKeys = [''kd'' \<mapsto> \<lparr>MetricName = ''velocity'', Tag = ''unit=kmh''\<rparr>,
                          ''kc'' \<mapsto> \<lparr>MetricName = ''rpm'', Tag = ''type=sensor''\<rparr>,
                          ''kd'' \<mapsto> \<lparr>MetricName = ''speed'', Tag = []\<rparr>],
            users = [[]], user = []\<rparr>"

section \<open>Properties\<close>

subsection \<open>One forwarding call\<close>

text \<open>
  Each variant of \<^verbatim>\<open>sendToWarp10\<close> makes one outbound call when the URL can be parsed
  and none otherwise, leaves the response writer alone and only adds to the log.
\<close>

lemma send_main_world:
  "\<exists>l. posts (world_of (sendToWarp10_main env g gts w)) =
       posts w @ (if valid_url env (update_url g) then [request_for g gts] else []) \<and>
     header (world_of (sendToWarp10_main env g gts w)) = header w \<and>
     written (world_of (sendToWarp10_main env g gts w)) = written w \<and>
     logs (world_of (sendToWarp10_main env g gts w)) = logs w @ l"
  by (auto simp: sendToWarp10_main_def NewRequest_def Header_Set_def request_for_def
      world_of_def Println_def Let_def update_url_def split: option.splits)

lemma send_p000_world:
  "\<exists>l. posts (world_of (sendToWarp10_p000 env g gts w)) =
       posts w @ (if valid_url env (update_url g) then [request_for g gts] else []) \<and>
     header (world_of (sendToWarp10_p000 env g gts w)) = header w \<and>
     written (world_of (sendToWarp10_p000 env g gts w)) = written w \<and>
     logs (world_of (sendToWarp10_p000 env g gts w)) = logs w @ l"
  by (auto simp: sendToWarp10_p000_def NewRequest_def Header_Set_def request_for_def
      world_of_def Println_def Let_def update_url_def split: option.splits)

lemma send_p001_world:
  "\<exists>l. posts (world_of (sendToWarp10_p001 env g gts w)) =
       posts w @ (if valid_url env (update_url g) then [request_for g gts] else []) \<and>
     header (world_of (sendToWarp10_p001 env g gts w)) = header w \<and>
     written (world_of (sendToWarp10_p001 env g gts w)) = written w \<and>
     logs (world_of (sendToWarp10_p001 env g gts w)) = logs w @ l"
  by (auto simp: sendToWarp10_p001_def NewRequest_def Header_Set_def request_for_def
      world_of_def Println_def Let_def update_url_def split: option.splits)

lemma forwarded_append: "posts (world_of r) = posts w @ xs \<Longrightarrow> forwarded w r = xs"
  by (simp add: forwarded_def)

text \<open>
  C2. The body handed to the datastore is the record's fields joined as
  \<^verbatim>\<open>TS/LAT:LON/ELEV NAME{LABELS} VALUE\<close>: this is what \<^verbatim>\<open>Print\<close> returns, what it
  returns on the record of the specification's example, and the body of the one call
  that each variant of \<^verbatim>\<open>sendToWarp10\<close> makes (none when the URL does not parse).
\<close>

theorem Print_wire_format:
  "Print gts = TS gts @ ''/'' @ Lat gts @ '':'' @ Long gts @ ''/'' @ Elev gts @ '' ''
       @ Name gts @ ''{'' @ Labels gts @ ''}'' @ '' '' @ Value gts
   \<and> Print \<lparr>TS = ''1500000000000000'', Lat = ''45.0'', Long = ''3.0'', Elev = ''12345'',
            Name = ''speed'', Labels = ''id=42'', Value = ''87''\<rparr>
       = ''1500000000000000/45.0:3.0/12345 speed{id=42} 87''
   \<and> map Body (forwarded w (sendToWarp10_main env g gts w))
       = (if valid_url env (update_url g) then [Print gts] else [])
   \<and> map Body (forwarded w (sendToWarp10_p000 env g gts w))
       = (if valid_url env (update_url g) then [Print gts] else [])
   \<and> map Body (forwarded w (sendToWarp10_p001 env g gts w))
       = (if valid_url env (update_url g) then [Print gts] else [])"
proof -
  have fmt: "Print gts = TS gts @ ''/'' @ Lat gts @ '':'' @ Long gts @ ''/'' @ Elev gts @ '' ''
       @ Name gts @ ''{'' @ Labels gts @ ''}'' @ '' '' @ Value gts"
    by (simp add: Print_def)
  have ex: "Print \<lparr>TS = ''1500000000000000'', Lat = ''45.0'', Long = ''3.0'', Elev = ''12345'',
            Name = ''speed'', Labels = ''id=42'', Value = ''87''\<rparr>
       = ''1500000000000000/45.0:3.0/12345 speed{id=42} 87''"
    by (simp add: Print_def)
  have body: "map Body (if c then [request_for g gts] else []) = (if c then [Print gts] else [])"
    for c by (simp add: request_for_def)
  have m: "map Body (forwarded w (sendToWarp10_main env g gts w))
       = (if valid_url env (update_url g) then [Print gts] else [])"
    using send_main_world [of env g gts w] forwarded_append body by metis
  have p0: "map Body (forwarded w (sendToWarp10_p000 env g gts w))
       = (if valid_url env (update_url g) then [Print gts] else [])"
    using send_p000_world [of env g gts w] forwarded_append body by metis
  have p1: "map Body (forwarded w (sendToWarp10_p001 env g gts w))
       = (if valid_url env (update_url g) then [Print gts] else [])"
    using send_p001_world [of env g gts w] forwarded_append body by metis
  from fmt ex m p0 p1 show ?thesis by blast
qed

subsection \<open>Loops and what they post\<close>

lemma range_loop_world:
  assumes step: "\<And>key w. \<exists>l. posts (world_of (f key w)) = posts w @ out key \<and>
      header (world_of (f key w)) = header w \<and> written (world_of (f key w)) = written w \<and>
      logs (world_of (f key w)) = logs w @ l"
  shows "\<exists>n l. posts (world_of (range_loop f keys w)) = posts w @ take n (concat (map out keys)) \<and>
      header (world_of (range_loop f keys w)) = header w \<and>
      written (world_of (range_loop f keys w)) = written w \<and>
      logs (world_of (range_loop f keys w)) = logs w @ l"
proof (induction keys arbitrary: w)
  case Nil
  show ?case by (simp add: world_of_def)
next
  case (Cons key keys)
  from step [of key w] obtain l where
    s: "posts (world_of (f key w)) = posts w @ out key"
      "header (world_of (f key w)) = header w" "written (world_of (f key w)) = written w"
      "logs (world_of (f key w)) = logs w @ l"
    by blast
  show ?case
  proof (cases "f key w")
    case (Inl pw)
    then have "range_loop f (key # keys) w = f key w" by simp
    moreover have "out key = take (length (out key)) (concat (map out (key # keys)))" by simp
    ultimately show ?thesis using s by metis
  next
    case (Inr w')
    then have w': "world_of (f key w) = w'" by (simp add: world_of_def)
    from Cons.IH [of w'] obtain n l' where
      ih: "posts (world_of (range_loop f keys w')) = posts w' @ take n (concat (map out keys))"
        "header (world_of (range_loop f keys w')) = header w'"
        "written (world_of (range_loop f keys w')) = written w'"
        "logs (world_of (range_loop f keys w')) = logs w' @ l'"
      by blast
    have eq: "range_loop f (key # keys) w = range_loop f keys w'" using Inr by simp
    have "out key @ take n (concat (map out keys)) =
        take (length (out key) + n) (concat (map out (key # keys)))" by simp
    then have "posts (world_of (range_loop f (key # keys) w)) =
        posts w @ take (length (out key) + n) (concat (map out (key # keys)))"
      using eq ih(1) s(1) w' by simp
    moreover have "logs (world_of (range_loop f (key # keys) w)) = logs w @ (l @ l')"
      using eq ih(4) s(4) w' by simp
    ultimately show ?thesis using eq ih(2,3) s(2,3) w' by metis
  qed
qed

lemma range_loop_returns:
  assumes ok: "\<And>key w. \<exists>w'. f key w = Inr w'"
    and step: "\<And>key w. posts (world_of (f key w)) = posts w @ out key"
  shows "\<exists>w'. range_loop f keys w = Inr w' \<and> posts w' = posts w @ concat (map out keys)"
proof (induction keys arbitrary: w)
  case Nil
  show ?case by simp
next
  case (Cons key keys)
  from ok [of key w] obtain w1 where w1: "f key w = Inr w1" by blast
  with step [of key w] have p1: "posts w1 = posts w @ out key" by (simp add: world_of_def)
  from Cons.IH [of w1] obtain w2 where
    "range_loop f keys w1 = Inr w2" "posts w2 = posts w1 @ concat (map out keys)" by blast
  with w1 p1 show ?case by simp
qed

lemma concat_calls:
  "concat (map (\<lambda>key. case torqueKeys g key of None \<Rightarrow> []
                    | Some val \<Rightarrow> if c then [request_for g (record key val)] else []) keys) =
     (if c then calls g record keys else [])"
  by (induction keys) (auto simp: calls_def List.map_filter_simps split: option.splits)

lemma concat_calls_all:
  "concat (map (\<lambda>key. case torqueKeys g key of None \<Rightarrow> []
                    | Some val \<Rightarrow> [request_for g (record key val)]) keys) =
     calls g record keys"
  by (induction keys) (auto simp: calls_def List.map_filter_simps split: option.splits)

lemma take_if: "take n (if c then xs else []) = take (if c then n else 0) xs"
  by simp

lemma forward_p000_world:
  fixes env g q key w
  defines "r \<equiv> forward_p000 env g q (Get q ''id'') (Get q ''time'') (Get q ''kff1006'')
     (Get q ''kff1005'') (altitude_of env (fst (ParseFloat env (Get q ''kff1010'')))) key w"
  shows "\<exists>l. posts (world_of r) =
        posts w @ (case torqueKeys g key of None \<Rightarrow> []
                   | Some val \<Rightarrow> if valid_url env (update_url g)
                                 then [request_for g (record_p000 env q key val)] else []) \<and>
      header (world_of r) = header w \<and> written (world_of r) = written w \<and>
      logs (world_of r) = logs w @ l"
proof (cases "torqueKeys g key")
  case None
  then show ?thesis by (simp add: r_def forward_p000_def world_of_def)
next
  case (Some val)
  have "r = sendToWarp10_p000 env g (record_p000 env q key val) w"
    using Some by (simp add: r_def forward_p000_def record_p000_def Let_def)
  then show ?thesis
    using send_p000_world [of env g "record_p000 env q key val" w] Some by simp
qed

lemma forward_p001_world:
  fixes env g q key w
  defines "r \<equiv> forward_p001 env g q (Get q ''id'') (Get q ''time'') (Get q ''kff1006'')
     (Get q ''kff1005'') (altitude_of env (fst (ParseFloat env (Get q ''kff1010'')))) key w"
  shows "\<exists>l. posts (world_of r) =
        posts w @ (case torqueKeys g key of None \<Rightarrow> []
                   | Some val \<Rightarrow> if valid_url env (update_url g)
                                 then [request_for g (record_p001 env q key val)] else []) \<and>
      header (world_of r) = header w \<and> written (world_of r) = written w \<and>
      logs (world_of r) = logs w @ l"
proof (cases "torqueKeys g key")
  case None
  then show ?thesis by (simp add: r_def forward_p001_def world_of_def)
next
  case (Some val)
  have "r = sendToWarp10_p001 env g (record_p001 env q key val) w"
    using Some by (simp add: r_def forward_p001_def record_p001_def record_p000_def Let_def)
  then show ?thesis
    using send_p001_world [of env g "record_p001 env q key val" w] Some by simp
qed


text \<open>A datastore that answers 200 never makes a forwarding call panic.\<close>

lemma send_p000_returns:
  assumes "valid_url env (update_url g)" and "answers_200 env"
  shows "\<exists>w'. sendToWarp10_p000 env g gts w = Inr w'"
proof -
  from assms(2) obtain resp e where
    "client_Do env (length (posts w)) (request_for g gts) = (Some resp, e)" "StatusCode resp = 200"
    unfolding answers_200_def by blast
  with assms(1) show ?thesis
    by (simp add: sendToWarp10_p000_def NewRequest_def update_url_def request_for_def
        Header_Set_def Let_def)
qed

lemma send_p001_returns:
  assumes "valid_url env (update_url g)" and "answers_200 env"
  shows "\<exists>w'. sendToWarp10_p001 env g gts w = Inr w'"
proof -
  from assms(2) obtain resp e where
    "client_Do env (length (posts w)) (request_for g gts) = (Some resp, e)" "StatusCode resp = 200"
    unfolding answers_200_def by blast
  with assms(1) show ?thesis
    by (simp add: sendToWarp10_p001_def NewRequest_def update_url_def request_for_def
        Header_Set_def Let_def Println_def)
qed

lemma forward_p000_returns:
  assumes "valid_url env (update_url g)" and "answers_200 env"
  shows "\<exists>w'. forward_p000 env g q ident time lat long alt key w = Inr w'"
  using send_p000_returns [OF assms]
  by (cases "torqueKeys g key") (simp_all add: forward_p000_def Let_def)

lemma forward_p001_returns:
  assumes "valid_url env (update_url g)" and "answers_200 env"
  shows "\<exists>w'. forward_p001 env g q ident time lat long alt key w = Inr w'"
  using send_p001_returns [OF assms]
  by (cases "torqueKeys g key") (simp_all add: forward_p001_def Let_def)

subsection \<open>The loop over the query parameters\<close>

lemma loop_p000_world:
  fixes env g q keys w
  defines "r \<equiv> range_loop (forward_p000 env g q (Get q ''id'') (Get q ''time'') (Get q ''kff1006'')
     (Get q ''kff1005'') (altitude_of env (fst (ParseFloat env (Get q ''kff1010''))))) keys w"
  shows "\<exists>n l. posts (world_of r) = posts w @ take n (calls g (record_p000 env q) keys) \<and>
      header (world_of r) = header w \<and> written (world_of r) = written w \<and>
      logs (world_of r) = logs w @ l"
  unfolding r_def
  using range_loop_world [of "forward_p000 env g q (Get q ''id'') (Get q ''time'') (Get q ''kff1006'')
     (Get q ''kff1005'') (altitude_of env (fst (ParseFloat env (Get q ''kff1010''))))" _ keys w,
     OF forward_p000_world]
  by (simp only: concat_calls take_if) blast

lemma loop_p001_world:
  fixes env g q keys w
  defines "r \<equiv> range_loop (forward_p001 env g q (Get q ''id'') (Get q ''time'') (Get q ''kff1006'')
     (Get q ''kff1005'') (altitude_of env (fst (ParseFloat env (Get q ''kff1010''))))) keys w"
  shows "\<exists>n l. posts (world_of r) = posts w @ take n (calls g (record_p001 env q) keys) \<and>
      header (world_of r) = header w \<and> written (world_of r) = written w \<and>
      logs (world_of r) = logs w @ l"
  unfolding r_def
  using range_loop_world [of "forward_p001 env g q (Get q ''id'') (Get q ''time'') (Get q ''kff1006'')
     (Get q ''kff1005'') (altitude_of env (fst (ParseFloat env (Get q ''kff1010''))))" _ keys w,
     OF forward_p001_world]
  by (simp only: concat_calls take_if) blast



lemma loop_p000_returns:
  fixes env g q keys w
  defines "f \<equiv> forward_p000 env g q (Get q ''id'') (Get q ''time'') (Get q ''kff1006'')
     (Get q ''kff1005'') (altitude_of env (fst (ParseFloat env (Get q ''kff1010''))))"
  assumes ok: "valid_url env (update_url g)" "answers_200 env"
  shows "\<exists>w' l. range_loop f keys w = Inr w' \<and>
      posts w' = posts w @ calls g (record_p000 env q) keys \<and>
      header w' = header w \<and> written w' = written w \<and> logs w' = logs w @ l"
proof -
  have ret: "\<exists>w'. f key w = Inr w'" for key w
    unfolding f_def by (rule forward_p000_returns [OF ok])
  have step: "posts (world_of (f key w)) =
      posts w @ (case torqueKeys g key of None \<Rightarrow> []
                 | Some val \<Rightarrow> [request_for g (record_p000 env q key val)])"
    for key w
    using forward_p000_world [of env g q key w] ok(1) unfolding f_def by (auto split: option.splits)
  from range_loop_returns [of f, OF ret step, of keys w] obtain w' where
    w': "range_loop f keys w = Inr w'" "posts w' = posts w @ calls g (record_p000 env q) keys"
    by (auto simp only: concat_calls_all)
  then have "world_of (range_loop f keys w) = w'" by (simp add: world_of_def)
  with loop_p000_world [of env g q keys w] w' show ?thesis
    unfolding f_def by auto
qed

lemma loop_p001_returns:
  fixes env g q keys w
  defines "f \<equiv> forward_p001 env g q (Get q ''id'') (Get q ''time'') (Get q ''kff1006'')
     (Get q ''kff1005'') (altitude_of env (fst (ParseFloat env (Get q ''kff1010''))))"
  assumes ok: "valid_url env (update_url g)" "answers_200 env"
  shows "\<exists>w' l. range_loop f keys w = Inr w' \<and>
      posts w' = posts w @ calls g (record_p001 env q) keys \<and>
      header w' = header w \<and> written w' = written w \<and> logs w' = logs w @ l"
proof -
  have ret: "\<exists>w'. f key w = Inr w'" for key w
    unfolding f_def by (rule forward_p001_returns [OF ok])
  have step: "posts (world_of (f key w)) =
      posts w @ (case torqueKeys g key of None \<Rightarrow> []
                 | Some val \<Rightarrow> [request_for g (record_p001 env q key val)])"
    for key w
    using forward_p001_world [of env g q key w] ok(1) unfolding f_def by (auto split: option.splits)
  from range_loop_returns [of f, OF ret step, of keys w] obtain w' where
    w': "range_loop f keys w = Inr w'" "posts w' = posts w @ calls g (record_p001 env q) keys"
    by (auto simp only: concat_calls_all)
  then have "world_of (range_loop f keys w) = w'" by (simp add: world_of_def)
  with loop_p001_world [of env g q keys w] w' show ?thesis
    unfolding f_def by auto
qed

subsection \<open>The handlers\<close>

text \<open>The gates, as the two gated handlers test them.\<close>

lemma query_p000_gate:
  assumes "stringInSlice (Get q ''eml'') (users g) \<or> Get q ''kff1005'' = [] \<or>
      Get q ''kff1006'' = [] \<or> Get q ''kff1010'' = []"
  shows "\<exists>w'. query_p000 env g q w = Inr w' \<and> posts w' = posts w \<and>
      header w' = Header_Set (header w) ''Content-Type'' ''text/html'' \<and>
      written w' = written w @ ''OK!''"
  using assms by (auto simp: query_p000_def Write_def Header_Set_w_def Println_def)

lemma query_p001_gate:
  assumes "Get q ''kff1005'' = [] \<or> Get q ''kff1006'' = [] \<or> Get q ''kff1010'' = [] \<or>
      Get q ''eml'' = user g"
  shows "\<exists>w'. query_p001 env g q w = Inr w' \<and> posts w' = posts w \<and>
      header w' = Header_Set (header w) ''Content-Type'' ''text/html'' \<and>
      written w' = written w @ ''OK!''"
  using assms by (auto simp: query_p001_def Write_def Header_Set_w_def Println_def Let_def)

text \<open>
  Whatever the request and the network: the calls made are the first \<open>n\<close> of the calls
  due, the log only grows, and the response writer is either untouched (a panic) or
  holds the acknowledgment.
\<close>

lemma query_p000_world:
  fixes env g q w
  defines "r \<equiv> query_p000 env g q w"
  shows "\<exists>n l. posts (world_of r) = posts w @ take n (calls g (record_p000 env q) (map fst q)) \<and>
      logs (world_of r) = logs w @ l \<and>
      (case r of
         Inl pw \<Rightarrow> header (world_of r) = header w \<and> written (world_of r) = written w
       | Inr w' \<Rightarrow> header w' = Header_Set (header w) ''Content-Type'' ''text/html'' \<and>
                  written w' = written w @ ''OK!'')"
proof (cases "stringInSlice (Get q ''eml'') (users g) \<or> Get q ''kff1005'' = [] \<or>
      Get q ''kff1006'' = [] \<or> Get q ''kff1010'' = []")
  case True
  then have "posts (world_of r) = posts w @ take 0 (calls g (record_p000 env q) (map fst q))"
    and "\<exists>l. logs (world_of r) = logs w @ l"
    and "case r of
         Inl pw \<Rightarrow> header (world_of r) = header w \<and> written (world_of r) = written w
       | Inr w' \<Rightarrow> header w' = Header_Set (header w) ''Content-Type'' ''text/html'' \<and>
                  written w' = written w @ ''OK!''"
    by (auto simp: r_def query_p000_def Write_def Header_Set_w_def Println_def world_of_def)
  then show ?thesis by blast
next
  case False
  define w1 where "w1 = log_err (snd (ParseFloat env (Get q ''kff1010''))) w"
  define lp where "lp = range_loop (forward_p000 env g q (Get q ''id'') (Get q ''time'')
     (Get q ''kff1006'') (Get q ''kff1005'')
     (altitude_of env (fst (ParseFloat env (Get q ''kff1010''))))) (map fst q) w1"
  have r: "r = (case lp of Inl pw \<Rightarrow> Inl pw
                | Inr w2 \<Rightarrow> Inr (Write ''OK!'' (Header_Set_w ''Content-Type'' ''text/html'' w2)))"
    using False by (simp add: r_def query_p000_def Let_def lp_def w1_def)
  have w1: "posts w1 = posts w" "header w1 = header w" "written w1 = written w"
    "\<exists>l. logs w1 = logs w @ l"
    by (auto simp: w1_def log_err_def Println_def split: option.splits)
  from loop_p000_world [of env g q "map fst q" w1] obtain n l where
    lp: "posts (world_of lp) = posts w1 @ take n (calls g (record_p000 env q) (map fst q))"
      "header (world_of lp) = header w1" "written (world_of lp) = written w1"
      "logs (world_of lp) = logs w1 @ l"
    unfolding lp_def by blast
  from w1(4) obtain l0 where l0: "logs w1 = logs w @ l0" by blast
  show ?thesis
  proof (cases lp)
    case (Inl pw)
    with r lp w1 l0 have "posts (world_of r) = posts w @ take n (calls g (record_p000 env q) (map fst q))"
      "logs (world_of r) = logs w @ (l0 @ l)"
      "case r of
         Inl pw \<Rightarrow> header (world_of r) = header w \<and> written (world_of r) = written w
       | Inr w' \<Rightarrow> header w' = Header_Set (header w) ''Content-Type'' ''text/html'' \<and>
                  written w' = written w @ ''OK!''"
      by (simp_all add: world_of_def)
    then show ?thesis by blast
  next
    case (Inr w2)
    with r lp w1 l0 have "posts (world_of r) = posts w @ take n (calls g (record_p000 env q) (map fst q))"
      "logs (world_of r) = logs w @ (l0 @ l)"
      "case r of
         Inl pw \<Rightarrow> header (world_of r) = header w \<and> written (world_of r) = written w
       | Inr w' \<Rightarrow> header w' = Header_Set (header w) ''Content-Type'' ''text/html'' \<and>
                  written w' = written w @ ''OK!''"
      by (simp_all add: world_of_def Write_def Header_Set_w_def)
    then show ?thesis by blast
  qed
qed


lemma query_p001_world:
  fixes env g q w
  defines "r \<equiv> query_p001 env g q w"
  shows "\<exists>n l. posts (world_of r) = posts w @ take n (calls g (record_p001 env q) (map fst q)) \<and>
      logs (world_of r) = logs w @ l \<and>
      (case r of
         Inl pw \<Rightarrow> header (world_of r) = header w \<and> written (world_of r) = written w
       | Inr w' \<Rightarrow> header w' = Header_Set (header w) ''Content-Type'' ''text/html'' \<and>
                  written w' = written w @ ''OK!'')"
proof (cases "Get q ''kff1005'' = [] \<or> Get q ''kff1006'' = [] \<or> Get q ''kff1010'' = [] \<or>
      Get q ''eml'' = user g")
  case True
  then have "posts (world_of r) = posts w @ take 0 (calls g (record_p001 env q) (map fst q))"
    and "\<exists>l. logs (world_of r) = logs w @ l"
    and "case r of
         Inl pw \<Rightarrow> header (world_of r) = header w \<and> written (world_of r) = written w
       | Inr w' \<Rightarrow> header w' = Header_Set (header w) ''Content-Type'' ''text/html'' \<and>
                  written w' = written w @ ''OK!''"
    by (auto simp: r_def query_p001_def Write_def Header_Set_w_def Println_def world_of_def Let_def)
  then show ?thesis by blast
next
  case False
  define w0 where "w0 = Println [S ''user:'', S (Get q ''eml'')]
                (Println [S ''elevation:'', S (Get q ''kff1010'')]
                  (Println [S ''latitude:'', S (Get q ''kff1006'')]
                    (Println [S ''longitude:'', S (Get q ''kff1005'')]
                      (Println [Q q]
                        (Println [S ''Received a call HTTP, GET Keys:''] w)))))"
  define w1 where "w1 = log_err (snd (ParseFloat env (Get q ''kff1010''))) w0"
  define lp where "lp = range_loop (forward_p001 env g q (Get q ''id'') (Get q ''time'')
     (Get q ''kff1006'') (Get q ''kff1005'')
     (altitude_of env (fst (ParseFloat env (Get q ''kff1010''))))) (map fst q) w1"
  have r: "r = (case lp of Inl pw \<Rightarrow> Inl pw
                | Inr w2 \<Rightarrow> Inr (Write ''OK!'' (Header_Set_w ''Content-Type'' ''text/html'' w2)))"
    using False by (simp add: r_def query_p001_def Let_def lp_def w1_def w0_def)
  have w1: "posts w1 = posts w" "header w1 = header w" "written w1 = written w"
    "\<exists>l. logs w1 = logs w @ l"
    by (auto simp: w1_def w0_def log_err_def Println_def split: option.splits)
  from loop_p001_world [of env g q "map fst q" w1] obtain n l where
    lp: "posts (world_of lp) = posts w1 @ take n (calls g (record_p001 env q) (map fst q))"
      "header (world_of lp) = header w1" "written (world_of lp) = written w1"
      "logs (world_of lp) = logs w1 @ l"
    unfolding lp_def by blast
  from w1(4) obtain l0 where l0: "logs w1 = logs w @ l0" by blast
  show ?thesis
  proof (cases lp)
    case (Inl pw)
    with r lp w1 l0 have "posts (world_of r) = posts w @ take n (calls g (record_p001 env q) (map fst q))"
      "logs (world_of r) = logs w @ (l0 @ l)"
      "case r of
         Inl pw \<Rightarrow> header (world_of r) = header w \<and> written (world_of r) = written w
       | Inr w' \<Rightarrow> header w' = Header_Set (header w) ''Content-Type'' ''text/html'' \<and>
                  written w' = written w @ ''OK!''"
      by (simp_all add: world_of_def)
    then show ?thesis by blast
  next
    case (Inr w2)
    with r lp w1 l0 have "posts (world_of r) = posts w @ take n (calls g (record_p001 env q) (map fst q))"
      "logs (world_of r) = logs w @ (l0 @ l)"
      "case r of
         Inl pw \<Rightarrow> header (world_of r) = header w \<and> written (world_of r) = written w
       | Inr w' \<Rightarrow> header w' = Header_Set (header w) ''Content-Type'' ''text/html'' \<and>
                  written w' = written w @ ''OK!''"
      by (simp_all add: world_of_def Write_def Header_Set_w_def)
    then show ?thesis by blast
  qed
qed


text \<open>
  With a URL that parses and a datastore that answers 200, a request that passes the
  gates has every call due made, the parse error (if any) in the log, and the handler
  returns.
\<close>

lemma query_p000_returns:
  assumes ok: "valid_url env (update_url g)" "answers_200 env"
    and gate: "\<not> stringInSlice (Get q ''eml'') (users g)" "Get q ''kff1005'' \<noteq> []"
      "Get q ''kff1006'' \<noteq> []" "Get q ''kff1010'' \<noteq> []"
  shows "\<exists>w' l. query_p000 env g q w = Inr w' \<and>
      posts w' = posts w @ calls g (record_p000 env q) (map fst q) \<and>
      logs w' = logs (log_err (snd (ParseFloat env (Get q ''kff1010''))) w) @ l"
proof -
  define w1 where "w1 = log_err (snd (ParseFloat env (Get q ''kff1010''))) w"
  have w1: "posts w1 = posts w"
    by (auto simp: w1_def log_err_def Println_def split: option.splits)
  from loop_p000_returns [OF ok, of q "map fst q" w1] obtain w2 l where
    w2: "range_loop (forward_p000 env g q (Get q ''id'') (Get q ''time'')
       (Get q ''kff1006'') (Get q ''kff1005'')
       (altitude_of env (fst (ParseFloat env (Get q ''kff1010''))))) (map fst q) w1 = Inr w2"
      "posts w2 = posts w1 @ calls g (record_p000 env q) (map fst q)" "logs w2 = logs w1 @ l"
    by blast
  have "query_p000 env g q w = Inr (Write ''OK!'' (Header_Set_w ''Content-Type'' ''text/html'' w2))"
    using gate w2(1) by (simp add: query_p000_def Let_def w1_def)
  with w2 w1 show ?thesis
    by (simp add: Write_def Header_Set_w_def w1_def)
qed

lemma query_p001_returns:
  assumes ok: "valid_url env (update_url g)" "answers_200 env"
    and gate: "Get q ''eml'' \<noteq> user g" "Get q ''kff1005'' \<noteq> []"
      "Get q ''kff1006'' \<noteq> []" "Get q ''kff1010'' \<noteq> []"
  shows "\<exists>w' l0 l. query_p001 env g q w = Inr w' \<and>
      posts w' = posts w @ calls g (record_p001 env q) (map fst q) \<and>
      logs w' = logs (log_err (snd (ParseFloat env (Get q ''kff1010''))) (w\<lparr>logs := logs w @ l0\<rparr>)) @ l"
proof -
  define w0 where "w0 = Println [S ''user:'', S (Get q ''eml'')]
                (Println [S ''elevation:'', S (Get q ''kff1010'')]
                  (Println [S ''latitude:'', S (Get q ''kff1006'')]
                    (Println [S ''longitude:'', S (Get q ''kff1005'')]
                      (Println [Q q]
                        (Println [S ''Received a call HTTP, GET Keys:''] w)))))"
  define w1 where "w1 = log_err (snd (ParseFloat env (Get q ''kff1010''))) w0"
  have w0: "\<exists>l0. w0 = w\<lparr>logs := logs w @ l0\<rparr>"
    by (simp add: w0_def Println_def, rule exI, rule refl)
  have w1: "posts w1 = posts w"
    by (auto simp: w1_def w0_def log_err_def Println_def split: option.splits)
  from loop_p001_returns [OF ok, of q "map fst q" w1] obtain w2 l where
    w2: "range_loop (forward_p001 env g q (Get q ''id'') (Get q ''time'')
       (Get q ''kff1006'') (Get q ''kff1005'')
       (altitude_of env (fst (ParseFloat env (Get q ''kff1010''))))) (map fst q) w1 = Inr w2"
      "posts w2 = posts w1 @ calls g (record_p001 env q) (map fst q)" "logs w2 = logs w1 @ l"
    by blast
  have "query_p001 env g q w = Inr (Write ''OK!'' (Header_Set_w ''Content-Type'' ''text/html'' w2))"
    using gate w2(1) by (simp add: query_p001_def Let_def w1_def w0_def)
  with w2 w1 w0 show ?thesis
    by (auto simp: Write_def Header_Set_w_def w1_def)
qed

subsection \<open>Claims about one forwarding call\<close>

text \<open>
  C10. In \<^verbatim>\<open>sendToWarp10\<close> of \<^verbatim>\<open>part_000\<close> and \<^verbatim>\<open>part_001\<close> the status of the
  response is read before the error is looked at. When the transport fails, so that
  \<^verbatim>\<open>client.Do\<close> returns a \<^verbatim>\<open>nil\<close> response and an error, the function panics on the
  \<^verbatim>\<open>nil\<close> dereference right after the call: the branch that would log the error is not
  reached (the log holds nothing about it), and nothing guards the dereference.
\<close>

theorem sendToWarp10_nil_response:
  assumes "valid_url env (update_url g)"
    and "client_Do env (length (posts w)) (request_for g gts) = (None, Some e)"
  shows "sendToWarp10_p000 env g gts w =
           Inl (NilDereference, w\<lparr>posts := posts w @ [request_for g gts]\<rparr>)
       \<and> sendToWarp10_p001 env g gts w =
           Inl (NilDereference,
                w\<lparr>logs := logs w @ [[S (Print gts)]], posts := posts w @ [request_for g gts]\<rparr>)"
  using assms
  by (simp add: sendToWarp10_p000_def sendToWarp10_p001_def NewRequest_def update_url_def
      request_for_def Header_Set_def Println_def Let_def)

theorem sendToWarp10_nil_response_witness:
  "valid_url env_down (update_url g_ex)
   \<and> client_Do env_down 0 (request_for g_ex
        \<lparr>TS = ''1'', Lat = ''45.0'', Long = ''3.0'', Elev = ''0'', Name = ''speed'',
         Labels = ''id=42'', Value = ''87''\<rparr>) = (None, Some ''connection refused'')
   \<and> sendToWarp10_p000 env_down g_ex
        \<lparr>TS = ''1'', Lat = ''45.0'', Long = ''3.0'', Elev = ''0'', Name = ''speed'',
         Labels = ''id=42'', Value = ''87''\<rparr> w_ex =
      Inl (NilDereference,
           \<lparr>logs = [],
            posts = [\<lparr>Method = ''POST'', URL = ''http://warp10/api/v0/update'',
                      Header = [(''X-Warp10-Token'', ''secret'')],
                      Body = ''1/45.0:3.0/0 speed{id=42} 87''\<rparr>],
            header = [], written = []\<rparr>)
   \<and> sendToWarp10_p001 env_down g_ex
        \<lparr>TS = ''1'', Lat = ''45.0'', Long = ''3.0'', Elev = ''0'', Name = ''speed'',
         Labels = ''id=42'', Value = ''87''\<rparr> w_ex =
      Inl (NilDereference,
           \<lparr>logs = [[S ''1/45.0:3.0/0 speed{id=42} 87'']],
            posts = [\<lparr>Method = ''POST'', URL = ''http://warp10/api/v0/update'',
                      Header = [(''X-Warp10-Token'', ''secret'')],
                      Body = ''1/45.0:3.0/0 speed{id=42} 87''\<rparr>],
            header = [], written = []\<rparr>)"
proof -
  have v: "valid_url env_down (update_url g_ex)"
    by (simp add: env_down_def env_ok_def)
  have d: "client_Do env_down (length (posts w_ex)) (request_for g_ex
        \<lparr>TS = ''1'', Lat = ''45.0'', Long = ''3.0'', Elev = ''0'', Name = ''speed'',
         Labels = ''id=42'', Value = ''87''\<rparr>) = (None, Some ''connection refused'')"
    by (simp add: env_down_def env_ok_def)
  show ?thesis
    using v d sendToWarp10_nil_response [OF v d]
    by (simp add: w_ex_def request_for_def update_url_def g_ex_def Print_def)
qed

subsection \<open>Claims about the gates and the acknowledgment\<close>

lemma response_of_ack:
  assumes "header w' = Header_Set [] ''Content-Type'' ''text/html''" and "written w' = [] @ ''OK!''"
  shows "response_of (Inr w') = Some acknowledgment"
  using assms by (simp add: response_of_def acknowledgment_def Header_Set_def)

lemma forwarded_Inr: "posts w' = posts w \<Longrightarrow> forwarded w (Inr w') = []"
  by (simp add: forwarded_def world_of_def)

text \<open>
  C3, as amended. In the two handlers that have a gate (\<^verbatim>\<open>part_000\<close> and \<^verbatim>\<open>part_001\<close>),
  a request in which the longitude \<^verbatim>\<open>kff1005\<close>, the latitude \<^verbatim>\<open>kff1006\<close> or the
  elevation \<^verbatim>\<open>kff1010\<close> is absent or empty makes no outbound call and is answered with
  status 200, content type \<^verbatim>\<open>text/html\<close> and the body \<^verbatim>\<open>OK!\<close>.
\<close>

theorem geolocation_gate:
  assumes "Get q ''kff1005'' = [] \<or> Get q ''kff1006'' = [] \<or> Get q ''kff1010'' = []"
  shows "forwarded w (query_p000 env g q w) = []
       \<and> response_of (query_p000 env g q (fresh w)) = Some acknowledgment
       \<and> forwarded w (query_p001 env g q w) = []
       \<and> response_of (query_p001 env g q (fresh w)) = Some acknowledgment"
proof -
  from assms have g0: "stringInSlice (Get q ''eml'') (users g) \<or> Get q ''kff1005'' = [] \<or>
      Get q ''kff1006'' = [] \<or> Get q ''kff1010'' = []"
    and g1: "Get q ''kff1005'' = [] \<or> Get q ''kff1006'' = [] \<or> Get q ''kff1010'' = [] \<or>
      Get q ''eml'' = user g"
    by auto
  have f0: "forwarded w (query_p000 env g q w) = []"
    using query_p000_gate [OF g0, of env w] forwarded_Inr by metis
  have f1: "forwarded w (query_p001 env g q w) = []"
    using query_p001_gate [OF g1, of env w] forwarded_Inr by metis
  have fr: "header (fresh w) = []" "written (fresh w) = []"
    by (simp_all add: fresh_def)
  have r0: "response_of (query_p000 env g q (fresh w)) = Some acknowledgment"
    using query_p000_gate [OF g0, of env "fresh w"] response_of_ack fr by metis
  have r1: "response_of (query_p001 env g q (fresh w)) = Some acknowledgment"
    using query_p001_gate [OF g1, of env "fresh w"] response_of_ack fr by metis
  from f0 f1 r0 r1 show ?thesis by blast
qed

theorem geolocation_gate_witness:
  "Get (q_nogps ''mallory@example.com'') ''kff1005'' = []
   \<and> forwarded w_ex (query_p000 env_ok g_ex (q_nogps ''mallory@example.com'') w_ex) = []
   \<and> response_of (query_p000 env_ok g_ex (q_nogps ''mallory@example.com'') (fresh w_ex))
       = Some \<lparr>status_code = 200, content_type = Some ''text/html'', payload = ''OK!''\<rparr>
   \<and> forwarded w_ex (query_p001 env_ok g_ex (q_nogps ''mallory@example.com'') w_ex) = []
   \<and> response_of (query_p001 env_ok g_ex (q_nogps ''mallory@example.com'') (fresh w_ex))
       = Some \<lparr>status_code = 200, content_type = Some ''text/html'', payload = ''OK!''\<rparr>"
proof -
  have h: "Get (q_nogps ''mallory@example.com'') ''kff1005'' = []"
    by (simp add: Get_def q_nogps_def)
  then have "Get (q_nogps ''mallory@example.com'') ''kff1005'' = [] \<or>
      Get (q_nogps ''mallory@example.com'') ''kff1006'' = [] \<or>
      Get (q_nogps ''mallory@example.com'') ''kff1010'' = []"
    by simp
  from geolocation_gate [OF this, of w_ex env_ok g_ex] h show ?thesis
    by (simp add: acknowledgment_def)
qed

text \<open>
  The handler of \<^verbatim>\<open>main.go\<close> has no gate and writes nothing: the same request without
  its longitude is forwarded, with an empty longitude, and answered with an empty body.
\<close>

theorem main_forwards_without_geolocation:
  "Get (q_nogps ''mallory@example.com'') ''kff1005'' = []
   \<and> map Body (forwarded w_ex (query_main env_ok g_ex (q_nogps ''mallory@example.com'') w_ex))
       = [''1500000000000/45.0:/12.345 speed{} 87'']
   \<and> response_of (query_main env_ok g_ex (q_nogps ''mallory@example.com'') (fresh w_ex))
       = Some \<lparr>status_code = 200, content_type = None, payload = []\<rparr>"
  by code_simp









text \<open>
  C1: the allow-list gate is inverted. With \<^verbatim>\<open>alice@example.com\<close> as the one allowed user,
  the request of \<^verbatim>\<open>alice\<close> is dropped as unauthorized, and the same request of
  \<^verbatim>\<open>mallory\<close>, who is not on the list, is translated and forwarded, in \<^verbatim>\<open>part_000\<close> as
  in \<^verbatim>\<open>part_001\<close>.
\<close>

theorem allow_list_gate_inverted:
  "stringInSlice ''alice@example.com'' (users g_ex)
   \<and> forwarded w_ex (query_p000 env_ok g_ex (q_ex ''alice@example.com'' ''12.345'') w_ex) = []
   \<and> logs (world_of (query_p000 env_ok g_ex (q_ex ''alice@example.com'' ''12.345'') w_ex))
       = [[S ''unauthorized'']]
   \<and> \<not> stringInSlice ''mallory@example.com'' (users g_ex)
   \<and> map Body (forwarded w_ex (query_p000 env_ok g_ex (q_ex ''mallory@example.com'' ''12.345'') w_ex))
       = [''1500000000000/45.0:3.0/12345 speed{id=42} 87'',
          ''1500000000000/45.0:3.0/12345 rpm{id=42,type=sensor} 3000'']
   \<and> user g_ex = ''alice@example.com''
   \<and> forwarded w_ex (query_p001 env_ok g_ex (q_ex ''alice@example.com'' ''12.345'') w_ex) = []
   \<and> map Body (forwarded w_ex (query_p001 env_ok g_ex (q_ex ''mallory@example.com'' ''12.345'') w_ex))
       = [''1500000000000000/45.0:3.0/12345 speed{id=42} 87'',
          ''1500000000000000/45.0:3.0/12345 rpm{id=42,type=sensor} 3000'']"
  by code_simp

subsection \<open>Claims about start-up and the key directory\<close>

lemma Split_comma_not_Nil: "Split_comma s \<noteq> []"
  by (induction s) (auto split: list.splits)

lemma foldl_snoc: "foldl (\<lambda>us u. us @ [u]) acc xs = acc @ xs"
  by (induction xs arbitrary: acc) auto

lemma feed_not_InitPanic: "feed key rows m \<noteq> Inl (InitPanic x)"
  by (induction rows arbitrary: key m) auto

lemma load_keys_not_InitPanic: "load_keys e got \<noteq> Inl (InitPanic x)"
  by (auto simp: load_keys_def feed_not_InitPanic split: sum.splits)

lemma feed_Suc:
  "list_all (\<lambda>r. length r = 3) rows \<Longrightarrow>
   feed (Suc key) rows m =
     Inr (fold (\<lambda>each m. m(each ! 0 \<mapsto> \<lparr>MetricName = each ! 1, Tag = each ! 2\<rparr>)) rows m)"
  by (induction rows arbitrary: key m) auto

lemma feed_0:
  "list_all (\<lambda>r. length r = 3) rows \<Longrightarrow>
   feed 0 rows m =
     Inr (fold (\<lambda>each m. m(each ! 0 \<mapsto> \<lparr>MetricName = each ! 1, Tag = each ! 2\<rparr>))
            (drop 1 rows) m)"
  by (cases rows) (simp_all add: feed_Suc)

lemma fold_lookup:
  "fold (\<lambda>each m. m(each ! 0 \<mapsto> \<lparr>MetricName = each ! 1, Tag = each ! 2\<rparr>)) rows m code =
     (case filter (\<lambda>row. row ! 0 = code) rows of
        [] \<Rightarrow> m code
      | r # rs \<Rightarrow> Some \<lparr>MetricName = last (r # rs) ! 1, Tag = last (r # rs) ! 2\<rparr>)"
  by (induction rows arbitrary: m) (auto split: list.splits)

lemma load_keys_lookup:
  assumes "load_keys e (Inr (Inr rows)) = Inr keys"
  shows "keys code =
     (case filter (\<lambda>row. row ! 0 = code) (drop 1 rows) of
        [] \<Rightarrow> None
      | r # rs \<Rightarrow> Some \<lparr>MetricName = last (r # rs) ! 1, Tag = last (r # rs) ! 2\<rparr>)"
proof -
  from assms have all3: "list_all (\<lambda>r. length r = 3) rows"
    and "feed 0 rows Map.empty = Inr keys"
    by (auto simp: load_keys_def ReadAll_def split: if_splits)
  with feed_0 [OF all3, of Map.empty]
  have "keys = fold (\<lambda>each m. m(each ! 0 \<mapsto> \<lparr>MetricName = each ! 1, Tag = each ! 2\<rparr>))
            (drop 1 rows) Map.empty"
    by simp
  then show ?thesis
    using fold_lookup [of "drop 1 rows" Map.empty code] by simp
qed

text \<open>
  C8: an empty allow-list does not stop \<^verbatim>\<open>init\<close> of \<^verbatim>\<open>part_000\<close>. The panic
  \<^verbatim>\<open>No User registered!\<close> is unreachable, whatever the environment and the table:
  \<^verbatim>\<open>strings.Split\<close> of the empty string is the one-element slice of the empty string, so
  that with \<^verbatim>\<open>ALLOWED_USERS\<close> unset, start-up succeeds with the empty string as the one
  allowed user.
\<close>

theorem empty_allow_list_is_not_fatal:
  "init_p000 e got \<noteq> Inl (InitPanic m)
   \<and> ALLOWED_USERS env_vars_ex = []
   \<and> Split_comma (ALLOWED_USERS env_vars_ex) = [[]]
   \<and> init_p000 env_vars_ex (Inr (Inr csv_ex)) = Inr g_csv
   \<and> users g_csv = [[]]"
proof -
  have "init_p000 e got \<noteq> Inl (InitPanic m)"
    by (auto simp: init_p000_def Let_def foldl_snoc Split_comma_not_Nil load_keys_not_InitPanic
        split: sum.splits)
  moreover have "init_p000 env_vars_ex (Inr (Inr csv_ex)) = Inr g_csv"
    by (simp add: init_p000_def env_vars_ex_def csv_ex_def g_csv_def load_keys_def ReadAll_def)
  ultimately show ?thesis
    by (simp add: env_vars_ex_def g_csv_def)
qed


lemma query_p000_prefix:
  "\<exists>n. forwarded w (query_p000 env g q w) = take n (calls g (record_p000 env q) (map fst q))"
  using query_p000_world [of env g q w] forwarded_append by metis

lemma query_p001_prefix:
  "\<exists>n. forwarded w (query_p001 env g q w) = take n (calls g (record_p001 env q) (map fst q))"
  using query_p001_world [of env g q w] forwarded_append by metis

lemma query_p000_all:
  assumes "valid_url env (update_url g)" "answers_200 env"
    "\<not> stringInSlice (Get q ''eml'') (users g)" "Get q ''kff1005'' \<noteq> []"
    "Get q ''kff1006'' \<noteq> []" "Get q ''kff1010'' \<noteq> []"
  shows "forwarded w (query_p000 env g q w) = calls g (record_p000 env q) (map fst q)"
  using query_p000_returns [OF assms, of w] by (auto simp: forwarded_def world_of_def)

lemma query_p001_all:
  assumes "valid_url env (update_url g)" "answers_200 env"
    "Get q ''eml'' \<noteq> user g" "Get q ''kff1005'' \<noteq> []"
    "Get q ''kff1006'' \<noteq> []" "Get q ''kff1010'' \<noteq> []"
  shows "forwarded w (query_p001 env g q w) = calls g (record_p001 env q) (map fst q)"
  using query_p001_returns [OF assms, of w] by (auto simp: forwarded_def world_of_def)

text \<open>
  C6. After \<^verbatim>\<open>init\<close> of \<^verbatim>\<open>part_000\<close> has loaded the table \<open>rows\<close>, the directory maps
  a field code to the metric name and tag of the last row after the header that bears
  the code, and to nothing when no such row exists. The handler makes one call per
  query parameter that the directory knows, in the order of the parameters, and none
  for the others: the calls made are the first \<open>n\<close> of those (a panic cuts the run
  short), and all of them when the request passes the gates and every call succeeds.
\<close>

theorem key_directory_lookup:
  assumes "init_p000 e (Inr (Inr rows)) = Inr g"
  shows "torqueKeys g code =
       (case filter (\<lambda>row. row ! 0 = code) (drop 1 rows) of
          [] \<Rightarrow> None
        | r # rs \<Rightarrow> Some \<lparr>MetricName = last (r # rs) ! 1, Tag = last (r # rs) ! 2\<rparr>)
     \<and> (\<exists>n. forwarded w (query_p000 env g q w) =
          take n (List.map_filter
            (\<lambda>key. map_option
               (\<lambda>val. request_for g
                  \<lparr>TS = Get q ''time'', Lat = Get q ''kff1006'', Long = Get q ''kff1005'',
                   Elev = altitude_of env (fst (ParseFloat env (Get q ''kff1010''))),
                   Name = MetricName val,
                   Labels = (if Tag val = [] then ''id='' @ Get q ''id''
                             else ''id='' @ Get q ''id'' @ '','' @ Tag val),
                   Value = Get q key\<rparr>)
               (torqueKeys g key))
            (map fst q)))
     \<and> (valid_url env (update_url g) \<and> answers_200 env \<and>
        \<not> stringInSlice (Get q ''eml'') (users g) \<and> Get q ''kff1005'' \<noteq> [] \<and>
        Get q ''kff1006'' \<noteq> [] \<and> Get q ''kff1010'' \<noteq> [] \<longrightarrow>
        forwarded w (query_p000 env g q w) =
          List.map_filter
            (\<lambda>key. map_option
               (\<lambda>val. request_for g
                  \<lparr>TS = Get q ''time'', Lat = Get q ''kff1006'', Long = Get q ''kff1005'',
                   Elev = altitude_of env (fst (ParseFloat env (Get q ''kff1010''))),
                   Name = MetricName val,
                   Labels = (if Tag val = [] then ''id='' @ Get q ''id''
                             else ''id='' @ Get q ''id'' @ '','' @ Tag val),
                   Value = Get q key\<rparr>)
               (torqueKeys g key))
            (map fst q))"
proof -
  from assms obtain keys where
    k: "load_keys e (Inr (Inr rows)) = Inr keys" "torqueKeys g = keys"
    by (auto simp: init_p000_def Let_def split: if_splits sum.splits)
  have dir: "torqueKeys g code =
       (case filter (\<lambda>row. row ! 0 = code) (drop 1 rows) of
          [] \<Rightarrow> None
        | r # rs \<Rightarrow> Some \<lparr>MetricName = last (r # rs) ! 1, Tag = last (r # rs) ! 2\<rparr>)"
    using load_keys_lookup [OF k(1), of code] k(2) by simp
  have pre: "\<exists>n. forwarded w (query_p000 env g q w) =
      take n (calls g (record_p000 env q) (map fst q))"
    by (rule query_p000_prefix)
  have full: "forwarded w (query_p000 env g q w) = calls g (record_p000 env q) (map fst q)"
    if "valid_url env (update_url g)" "answers_200 env"
      "\<not> stringInSlice (Get q ''eml'') (users g)" "Get q ''kff1005'' \<noteq> []"
      "Get q ''kff1006'' \<noteq> []" "Get q ''kff1010'' \<noteq> []"
    using that by (rule query_p000_all)
  from dir pre full show ?thesis
    unfolding calls_def record_p000_def by blast
qed

theorem key_directory_lookup_witness:
  "init_p000 env_vars_ex (Inr (Inr csv_ex)) = Inr g_csv
   \<and> torqueKeys g_csv ''kd'' = Some \<lparr>MetricName = ''speed'', Tag = []\<rparr>
   \<and> torqueKeys g_csv ''kc'' = Some \<lparr>MetricName = ''rpm'', Tag = ''type=sensor''\<rparr>
   \<and> torqueKeys g_csv ''key'' = None
   \<and> torqueKeys g_csv ''session'' = None
   \<and> map Body (forwarded w_ex (query_p000 env_ok g_csv (q_ex ''mallory@example.com'' ''12.345'') w_ex))
       = [''1500000000000/45.0:3.0/12345 speed{id=42} 87'',
          ''1500000000000/45.0:3.0/12345 rpm{id=42,type=sensor} 3000'']"
proof -
  have i: "init_p000 env_vars_ex (Inr (Inr csv_ex)) = Inr g_csv"
    by (simp add: init_p000_def env_vars_ex_def csv_ex_def g_csv_def load_keys_def ReadAll_def)
  have b: "map Body (forwarded w_ex (query_p000 env_ok g_csv (q_ex ''mallory@example.com'' ''12.345'') w_ex))
       = [''1500000000000/45.0:3.0/12345 speed{id=42} 87'',
          ''1500000000000/45.0:3.0/12345 rpm{id=42,type=sensor} 3000'']"
    by code_simp
  from i b
    key_directory_lookup [OF i, of "''kd''"] key_directory_lookup [OF i, of "''kc''"]
    key_directory_lookup [OF i, of "''key''"] key_directory_lookup [OF i, of "''session''"]
  show ?thesis
    by (simp add: csv_ex_def)
qed

subsection \<open>Claims about the fields of a forwarded record\<close>

lemma set_calls:
  "req \<in> set (calls g record keys) \<Longrightarrow>
   \<exists>key val. key \<in> set keys \<and> torqueKeys g key = Some val \<and> req = request_for g (record key val)"
  by (auto simp: calls_def List.map_filter_def)

lemma Body_request_for: "Body (request_for g gts) = Print gts"
  by (simp add: request_for_def)

text \<open>
  C5. The handlers of \<^verbatim>\<open>part_000\<close> and \<^verbatim>\<open>part_001\<close> assemble the labels of a record
  with the identity label first: \<^verbatim>\<open>id=\<close> followed by the device id, alone when the
  directory's tag is empty, followed by a comma and the tag otherwise.
  \<^item> For a key that the directory knows, the body of the loop makes one call (when the
    URL parses, whatever the network answers), and the call carries the record with
    these labels.
  \<^item> Every request that a handler forwards is such a call, for a key of the query that
    the directory knows.
  \<^item> When the request passes the gates and the forwarding calls succeed, the calls made
    are exactly these, one per known key, in the order of the keys.
\<close>

theorem labels_assembly:
  "(torqueKeys g key = Some val \<and> valid_url env (update_url g) \<longrightarrow>
      forwarded w (forward_p000 env g q ident time lat long alt key w) =
        [request_for g
           \<lparr>TS = time, Lat = lat, Long = long, Elev = alt, Name = MetricName val,
            Labels = (if Tag val = [] then ''id='' @ ident
                      else ''id='' @ ident @ '','' @ Tag val),
            Value = Get q key\<rparr>] \<and>
      forwarded w (forward_p001 env g q ident time lat long alt key w) =
        [request_for g
           \<lparr>TS = time @ ''000'', Lat = lat, Long = long, Elev = alt, Name = MetricName val,
            Labels = (if Tag val = [] then ''id='' @ ident
                      else ''id='' @ ident @ '','' @ Tag val),
            Value = Get q key\<rparr>])
   \<and> (\<forall>req \<in> set (forwarded w (query_p000 env g q w)).
      \<exists>key val. key \<in> set (map fst q) \<and> torqueKeys g key = Some val \<and>
        Body req = Print
          \<lparr>TS = Get q ''time'', Lat = Get q ''kff1006'', Long = Get q ''kff1005'',
           Elev = altitude_of env (fst (ParseFloat env (Get q ''kff1010''))),
           Name = MetricName val,
           Labels = (if Tag val = [] then ''id='' @ Get q ''id''
                     else ''id='' @ Get q ''id'' @ '','' @ Tag val),
           Value = Get q key\<rparr>)
   \<and> (\<forall>req \<in> set (forwarded w (query_p001 env g q w)).
      \<exists>key val. key \<in> set (map fst q) \<and> torqueKeys g key = Some val \<and>
        Body req = Print
          \<lparr>TS = Get q ''time'' @ ''000'', Lat = Get q ''kff1006'', Long = Get q ''kff1005'',
           Elev = altitude_of env (fst (ParseFloat env (Get q ''kff1010''))),
           Name = MetricName val,
           Labels = (if Tag val = [] then ''id='' @ Get q ''id''
                     else ''id='' @ Get q ''id'' @ '','' @ Tag val),
           Value = Get q key\<rparr>)
   \<and> (valid_url env (update_url g) \<and> answers_200 env \<and>
      \<not> stringInSlice (Get q ''eml'') (users g) \<and> Get q ''kff1005'' \<noteq> [] \<and>
      Get q ''kff1006'' \<noteq> [] \<and> Get q ''kff1010'' \<noteq> [] \<longrightarrow>
      forwarded w (query_p000 env g q w) =
        List.map_filter
          (\<lambda>key. map_option
             (\<lambda>val. request_for g
                \<lparr>TS = Get q ''time'', Lat = Get q ''kff1006'', Long = Get q ''kff1005'',
                 Elev = altitude_of env (fst (ParseFloat env (Get q ''kff1010''))),
                 Name = MetricName val,
                 Labels = (if Tag val = [] then ''id='' @ Get q ''id''
                           else ''id='' @ Get q ''id'' @ '','' @ Tag val),
                 Value = Get q key\<rparr>)
             (torqueKeys g key))
          (map fst q))
   \<and> (valid_url env (update_url g) \<and> answers_200 env \<and>
      Get q ''eml'' \<noteq> user g \<and> Get q ''kff1005'' \<noteq> [] \<and>
      Get q ''kff1006'' \<noteq> [] \<and> Get q ''kff1010'' \<noteq> [] \<longrightarrow>
      forwarded w (query_p001 env g q w) =
        List.map_filter
          (\<lambda>key. map_option
             (\<lambda>val. request_for g
                \<lparr>TS = Get q ''time'' @ ''000'', Lat = Get q ''kff1006'',
                 Long = Get q ''kff1005'',
                 Elev = altitude_of env (fst (ParseFloat env (Get q ''kff1010''))),
                 Name = MetricName val,
                 Labels = (if Tag val = [] then ''id='' @ Get q ''id''
                           else ''id='' @ Get q ''id'' @ '','' @ Tag val),
                 Value = Get q key\<rparr>)
             (torqueKeys g key))
          (map fst q))"
proof -
  have body0: "forwarded w (forward_p000 env g q ident time lat long alt key w) =
        [request_for g
           \<lparr>TS = time, Lat = lat, Long = long, Elev = alt, Name = MetricName val,
            Labels = (if Tag val = [] then ''id='' @ ident
                      else ''id='' @ ident @ '','' @ Tag val),
            Value = Get q key\<rparr>]"
    if kv: "torqueKeys g key = Some val" and v: "valid_url env (update_url g)"
  proof -
    let ?gts = "\<lparr>TS = time, Lat = lat, Long = long, Elev = alt, Name = MetricName val,
            Labels = (if Tag val = [] then ''id='' @ ident
                      else ''id='' @ ident @ '','' @ Tag val),
            Value = Get q key\<rparr>"
    have "forward_p000 env g q ident time lat long alt key w = sendToWarp10_p000 env g ?gts w"
      using kv by (simp add: forward_p000_def Let_def)
    moreover from send_p000_world [of env g ?gts w] v
    have "posts (world_of (sendToWarp10_p000 env g ?gts w)) = posts w @ [request_for g ?gts]"
      by auto
    ultimately show ?thesis by (simp add: forwarded_append)
  qed
  have body1: "forwarded w (forward_p001 env g q ident time lat long alt key w) =
        [request_for g
           \<lparr>TS = time @ ''000'', Lat = lat, Long = long, Elev = alt, Name = MetricName val,
            Labels = (if Tag val = [] then ''id='' @ ident
                      else ''id='' @ ident @ '','' @ Tag val),
            Value = Get q key\<rparr>]"
    if kv: "torqueKeys g key = Some val" and v: "valid_url env (update_url g)"
  proof -
    let ?gts = "\<lparr>TS = time @ ''000'', Lat = lat, Long = long, Elev = alt, Name = MetricName val,
            Labels = (if Tag val = [] then ''id='' @ ident
                      else ''id='' @ ident @ '','' @ Tag val),
            Value = Get q key\<rparr>"
    have "forward_p001 env g q ident time lat long alt key w = sendToWarp10_p001 env g ?gts w"
      using kv by (simp add: forward_p001_def Let_def)
    moreover from send_p001_world [of env g ?gts w] v
    have "posts (world_of (sendToWarp10_p001 env g ?gts w)) = posts w @ [request_for g ?gts]"
      by auto
    ultimately show ?thesis by (simp add: forwarded_append)
  qed
  have r1: "record_p001 env q key val =
          \<lparr>TS = Get q ''time'' @ ''000'', Lat = Get q ''kff1006'', Long = Get q ''kff1005'',
           Elev = altitude_of env (fst (ParseFloat env (Get q ''kff1010''))),
           Name = MetricName val,
           Labels = (if Tag val = [] then ''id='' @ Get q ''id''
                     else ''id='' @ Get q ''id'' @ '','' @ Tag val),
           Value = Get q key\<rparr>" for key val
    by (simp add: record_p001_def record_p000_def)
  have each0: "\<exists>key val. key \<in> set (map fst q) \<and> torqueKeys g key = Some val \<and>
        Body req = Print
          \<lparr>TS = Get q ''time'', Lat = Get q ''kff1006'', Long = Get q ''kff1005'',
           Elev = altitude_of env (fst (ParseFloat env (Get q ''kff1010''))),
           Name = MetricName val,
           Labels = (if Tag val = [] then ''id='' @ Get q ''id''
                     else ''id='' @ Get q ''id'' @ '','' @ Tag val),
           Value = Get q key\<rparr>"
    if "req \<in> set (forwarded w (query_p000 env g q w))" for req
  proof -
    from that query_p000_prefix [of w env g q]
    have "req \<in> set (calls g (record_p000 env q) (map fst q))"
      by (auto dest: in_set_takeD)
    from set_calls [OF this] obtain key val where
      "key \<in> set (map fst q)" "torqueKeys g key = Some val"
      "req = request_for g (record_p000 env q key val)"
      by blast
    then show ?thesis
      unfolding record_p000_def by (metis Body_request_for)
  qed
  have each1: "\<exists>key val. key \<in> set (map fst q) \<and> torqueKeys g key = Some val \<and>
        Body req = Print
          \<lparr>TS = Get q ''time'' @ ''000'', Lat = Get q ''kff1006'', Long = Get q ''kff1005'',
           Elev = altitude_of env (fst (ParseFloat env (Get q ''kff1010''))),
           Name = MetricName val,
           Labels = (if Tag val = [] then ''id='' @ Get q ''id''
                     else ''id='' @ Get q ''id'' @ '','' @ Tag val),
           Value = Get q key\<rparr>"
    if "req \<in> set (forwarded w (query_p001 env g q w))" for req
  proof -
    from that query_p001_prefix [of w env g q]
    have "req \<in> set (calls g (record_p001 env q) (map fst q))"
      by (auto dest: in_set_takeD)
    from set_calls [OF this] obtain key val where
      kv: "key \<in> set (map fst q)" "torqueKeys g key = Some val"
      "req = request_for g (record_p001 env q key val)"
      by blast
    with r1 [of key val] show ?thesis
      by (metis Body_request_for)
  qed
  have all0: "forwarded w (query_p000 env g q w) =
        List.map_filter
          (\<lambda>key. map_option
             (\<lambda>val. request_for g
                \<lparr>TS = Get q ''time'', Lat = Get q ''kff1006'', Long = Get q ''kff1005'',
                 Elev = altitude_of env (fst (ParseFloat env (Get q ''kff1010''))),
                 Name = MetricName val,
                 Labels = (if Tag val = [] then ''id='' @ Get q ''id''
                           else ''id='' @ Get q ''id'' @ '','' @ Tag val),
                 Value = Get q key\<rparr>)
             (torqueKeys g key))
          (map fst q)"
    if "valid_url env (update_url g)" "answers_200 env"
      "\<not> stringInSlice (Get q ''eml'') (users g)" "Get q ''kff1005'' \<noteq> []"
      "Get q ''kff1006'' \<noteq> []" "Get q ''kff1010'' \<noteq> []"
    using query_p000_all [OF that, of w] unfolding calls_def record_p000_def .
  have all1: "forwarded w (query_p001 env g q w) =
        List.map_filter
          (\<lambda>key. map_option
             (\<lambda>val. request_for g
                \<lparr>TS = Get q ''time'' @ ''000'', Lat = Get q ''kff1006'',
                 Long = Get q ''kff1005'',
                 Elev = altitude_of env (fst (ParseFloat env (Get q ''kff1010''))),
                 Name = MetricName val,
                 Labels = (if Tag val = [] then ''id='' @ Get q ''id''
                           else ''id='' @ Get q ''id'' @ '','' @ Tag val),
                 Value = Get q key\<rparr>)
             (torqueKeys g key))
          (map fst q)"
    if "valid_url env (update_url g)" "answers_200 env"
      "Get q ''eml'' \<noteq> user g" "Get q ''kff1005'' \<noteq> []"
      "Get q ''kff1006'' \<noteq> []" "Get q ''kff1010'' \<noteq> []"
    using query_p001_all [OF that, of w] unfolding calls_def r1 .
  from body0 body1 each0 each1 all0 all1 show ?thesis by blast
qed

theorem labels_assembly_witness:
  "valid_url env_ok (update_url g_ex) \<and> answers_200 env_ok
   \<and> \<not> stringInSlice (Get (q_ex ''mallory@example.com'' ''12.345'') ''eml'') (users g_ex)
   \<and> Get (q_ex ''mallory@example.com'' ''12.345'') ''eml'' \<noteq> user g_ex
   \<and> torqueKeys g_ex ''kd'' = Some \<lparr>MetricName = ''speed'', Tag = []\<rparr>
   \<and> torqueKeys g_ex ''kc'' = Some \<lparr>MetricName = ''rpm'', Tag = ''type=sensor''\<rparr>
   \<and> Get (q_ex ''mallory@example.com'' ''12.345'') ''id'' = ''42''
   \<and> map Body (forwarded w_ex (query_p000 env_ok g_ex (q_ex ''mallory@example.com'' ''12.345'') w_ex))
       = [''1500000000000/45.0:3.0/12345 speed{id=42} 87'',
          ''1500000000000/45.0:3.0/12345 rpm{id=42,type=sensor} 3000'']
   \<and> map Body (forwarded w_ex (query_p001 env_ok g_ex (q_ex ''mallory@example.com'' ''12.345'') w_ex))
       = [''1500000000000000/45.0:3.0/12345 speed{id=42} 87'',
          ''1500000000000000/45.0:3.0/12345 rpm{id=42,type=sensor} 3000'']
   \<and> forwarded w_ex (forward_p000 env_ok g_ex (q_ex ''mallory@example.com'' ''12.345'')
         ''42'' ''100'' ''45.0'' ''3.0'' ''0'' ''kd'' w_ex)
       = [request_for g_ex
            \<lparr>TS = ''100'', Lat = ''45.0'', Long = ''3.0'', Elev = ''0'', Name = ''speed'',
             Labels = ''id=42'', Value = ''87''\<rparr>]
   \<and> forwarded w_ex (forward_p001 env_ok g_ex (q_ex ''mallory@example.com'' ''12.345'')
         ''42'' ''100'' ''45.0'' ''3.0'' ''0'' ''kc'' w_ex)
       = [request_for g_ex
            \<lparr>TS = ''100000'', Lat = ''45.0'', Long = ''3.0'', Elev = ''0'', Name = ''rpm'',
             Labels = ''id=42,type=sensor'', Value = ''3000''\<rparr>]"
proof -
  let ?q = "q_ex ''mallory@example.com'' ''12.345''"
  let ?f0 = "\<lambda>key. map_option
             (\<lambda>val. request_for g_ex
                \<lparr>TS = Get ?q ''time'', Lat = Get ?q ''kff1006'', Long = Get ?q ''kff1005'',
                 Elev = altitude_of env_ok (fst (ParseFloat env_ok (Get ?q ''kff1010''))),
                 Name = MetricName val,
                 Labels = (if Tag val = [] then ''id='' @ Get ?q ''id''
                           else ''id='' @ Get ?q ''id'' @ '','' @ Tag val),
                 Value = Get ?q key\<rparr>)
             (torqueKeys g_ex key)"
  let ?f1 = "\<lambda>key. map_option
             (\<lambda>val. request_for g_ex
                \<lparr>TS = Get ?q ''time'' @ ''000'', Lat = Get ?q ''kff1006'',
                 Long = Get ?q ''kff1005'',
                 Elev = altitude_of env_ok (fst (ParseFloat env_ok (Get ?q ''kff1010''))),
                 Name = MetricName val,
                 Labels = (if Tag val = [] then ''id='' @ Get ?q ''id''
                           else ''id='' @ Get ?q ''id'' @ '','' @ Tag val),
                 Value = Get ?q key\<rparr>)
             (torqueKeys g_ex key)"
  have v: "valid_url env_ok (update_url g_ex)" by (simp add: env_ok_def)
  have a: "answers_200 env_ok" by (simp add: answers_200_def env_ok_def)
  have gate: "\<not> stringInSlice (Get ?q ''eml'') (users g_ex)" "Get ?q ''eml'' \<noteq> user g_ex"
    "Get ?q ''kff1005'' \<noteq> []" "Get ?q ''kff1006'' \<noteq> []" "Get ?q ''kff1010'' \<noteq> []"
    by (simp_all add: Get_def q_ex_def g_ex_def)
  have k: "torqueKeys g_ex ''kd'' = Some \<lparr>MetricName = ''speed'', Tag = []\<rparr>"
    "torqueKeys g_ex ''kc'' = Some \<lparr>MetricName = ''rpm'', Tag = ''type=sensor''\<rparr>"
    by (simp_all add: g_ex_def)
  have i: "Get ?q ''id'' = ''42''" "Get ?q ''kd'' = ''87''" "Get ?q ''kc'' = ''3000''"
    by (simp_all add: Get_def q_ex_def)
  note D = labels_assembly [where g = g_ex and env = env_ok and w = w_ex and q = ?q
      and key = "''kd''" and val = "\<lparr>MetricName = ''speed'', Tag = []\<rparr>"
      and ident = "''42''" and time = "''100''" and lat = "''45.0''" and long = "''3.0''"
      and alt = "''0''"]
  note C = labels_assembly [where g = g_ex and env = env_ok and w = w_ex and q = ?q
      and key = "''kc''" and val = "\<lparr>MetricName = ''rpm'', Tag = ''type=sensor''\<rparr>"
      and ident = "''42''" and time = "''100''" and lat = "''45.0''" and long = "''3.0''"
      and alt = "''0''"]
  from D v a gate have e0: "forwarded w_ex (query_p000 env_ok g_ex ?q w_ex) =
      List.map_filter ?f0 (map fst ?q)"
    by blast
  from D v a gate have e1: "forwarded w_ex (query_p001 env_ok g_ex ?q w_ex) =
      List.map_filter ?f1 (map fst ?q)"
    by blast
  have m0: "map Body (List.map_filter ?f0 (map fst ?q))
       = [''1500000000000/45.0:3.0/12345 speed{id=42} 87'',
          ''1500000000000/45.0:3.0/12345 rpm{id=42,type=sensor} 3000'']"
    by code_simp
  have m1: "map Body (List.map_filter ?f1 (map fst ?q))
       = [''1500000000000000/45.0:3.0/12345 speed{id=42} 87'',
          ''1500000000000000/45.0:3.0/12345 rpm{id=42,type=sensor} 3000'']"
    by code_simp
  from D k(1) v have b0: "forwarded w_ex (forward_p000 env_ok g_ex ?q
         ''42'' ''100'' ''45.0'' ''3.0'' ''0'' ''kd'' w_ex)
       = [request_for g_ex
            \<lparr>TS = ''100'', Lat = ''45.0'', Long = ''3.0'', Elev = ''0'', Name = ''speed'',
             Labels = ''id=42'', Value = ''87''\<rparr>]"
    by (simp add: i)
  from C k(2) v have b1: "forwarded w_ex (forward_p001 env_ok g_ex ?q
         ''42'' ''100'' ''45.0'' ''3.0'' ''0'' ''kc'' w_ex)
       = [request_for g_ex
            \<lparr>TS = ''100000'', Lat = ''45.0'', Long = ''3.0'', Elev = ''0'', Name = ''rpm'',
             Labels = ''id=42,type=sensor'', Value = ''3000''\<rparr>]"
    by (simp add: i)
  from v a gate(1,2) k i(1) m0 [folded e0] m1 [folded e1] b0 b1
  show ?thesis by (intro conjI)
qed

text \<open>What a forwarded request is: the call for one known key of the query.\<close>

lemma forwarded_p000_record:
  assumes "req \<in> set (forwarded w (query_p000 env g q w))"
  shows "\<exists>key val. torqueKeys g key = Some val \<and> req = request_for g (record_p000 env q key val)"
proof -
  from assms query_p000_prefix [of w env g q]
  have "req \<in> set (calls g (record_p000 env q) (map fst q))"
    by (auto dest: in_set_takeD)
  from set_calls [OF this] show ?thesis by blast
qed

lemma forwarded_p001_record:
  assumes "req \<in> set (forwarded w (query_p001 env g q w))"
  shows "\<exists>key val. torqueKeys g key = Some val \<and> req = request_for g (record_p001 env q key val)"
proof -
  from assms query_p001_prefix [of w env g q]
  have "req \<in> set (calls g (record_p001 env q) (map fst q))"
    by (auto dest: in_set_takeD)
  from set_calls [OF this] show ?thesis by blast
qed


text \<open>
  The timestamp and the coordinates of every forwarded record: \<^verbatim>\<open>part_001\<close> sends the
  \<^verbatim>\<open>time\<close> parameter followed by \<^verbatim>\<open>000\<close>, \<^verbatim>\<open>part_000\<close> sends the parameter as it came;
  both send the strings of \<^verbatim>\<open>kff1006\<close> and \<^verbatim>\<open>kff1005\<close> unchanged.
\<close>

lemma forwarded_timestamp:
  "(\<forall>req \<in> set (forwarded w (query_p001 env g q w)).
      \<exists>elev name labels val.
        Body req = Print
          \<lparr>TS = Get q ''time'' @ ''000'', Lat = Get q ''kff1006'', Long = Get q ''kff1005'',
           Elev = elev, Name = name, Labels = labels, Value = val\<rparr>)
   \<and> (\<forall>req \<in> set (forwarded w (query_p000 env g q w)).
      \<exists>elev name labels val.
        Body req = Print
          \<lparr>TS = Get q ''time'', Lat = Get q ''kff1006'', Long = Get q ''kff1005'',
           Elev = elev, Name = name, Labels = labels, Value = val\<rparr>)"
proof (intro conjI ballI)
  fix req
  assume "req \<in> set (forwarded w (query_p001 env g q w))"
  from forwarded_p001_record [OF this] obtain key v where
    "req = request_for g (record_p001 env q key v)" by blast
  then have "Body req = Print
          \<lparr>TS = Get q ''time'' @ ''000'', Lat = Get q ''kff1006'', Long = Get q ''kff1005'',
           Elev = Elev (record_p000 env q key v), Name = Name (record_p000 env q key v),
           Labels = Labels (record_p000 env q key v), Value = Value (record_p000 env q key v)\<rparr>"
    by (simp add: request_for_def record_p001_def record_p000_def)
  then show "\<exists>elev name labels val.
        Body req = Print
          \<lparr>TS = Get q ''time'' @ ''000'', Lat = Get q ''kff1006'', Long = Get q ''kff1005'',
           Elev = elev, Name = name, Labels = labels, Value = val\<rparr>"
    by blast
next
  fix req
  assume "req \<in> set (forwarded w (query_p000 env g q w))"
  from forwarded_p000_record [OF this] obtain key v where
    "req = request_for g (record_p000 env q key v)" by blast
  then have "Body req = Print
          \<lparr>TS = Get q ''time'', Lat = Get q ''kff1006'', Long = Get q ''kff1005'',
           Elev = Elev (record_p000 env q key v), Name = Name (record_p000 env q key v),
           Labels = Labels (record_p000 env q key v), Value = Value (record_p000 env q key v)\<rparr>"
    by (simp add: request_for_def record_p000_def)
  then show "\<exists>elev name labels val.
        Body req = Print
          \<lparr>TS = Get q ''time'', Lat = Get q ''kff1006'', Long = Get q ''kff1005'',
           Elev = elev, Name = name, Labels = labels, Value = val\<rparr>"
    by blast
qed

text \<open>
  C9: the handler of \<^verbatim>\<open>part_000\<close> does not normalize the timestamp. The field \<^verbatim>\<open>TS\<close>
  is documented as microseconds since the Unix epoch, and \<^verbatim>\<open>part_001\<close> turns the
  milliseconds of the \<^verbatim>\<open>time\<close> parameter into microseconds by appending \<^verbatim>\<open>000\<close>; on
  the same request, \<^verbatim>\<open>part_000\<close> forwards the parameter unchanged, a timestamp a
  thousand times too small. Latitude and longitude are passed through by both.
\<close>

theorem timestamp_not_normalized_in_p000:
  "Get (q_ex ''mallory@example.com'' ''12.345'') ''time'' = ''1500000000000''
   \<and> Get (q_ex ''mallory@example.com'' ''12.345'') ''kff1006'' = ''45.0''
   \<and> Get (q_ex ''mallory@example.com'' ''12.345'') ''kff1005'' = ''3.0''
   \<and> map Body (forwarded w_ex (query_p001 env_ok g_ex (q_ex ''mallory@example.com'' ''12.345'') w_ex))
       = [''1500000000000000/45.0:3.0/12345 speed{id=42} 87'',
          ''1500000000000000/45.0:3.0/12345 rpm{id=42,type=sensor} 3000'']
   \<and> map Body (forwarded w_ex (query_p000 env_ok g_ex (q_ex ''mallory@example.com'' ''12.345'') w_ex))
       = [''1500000000000/45.0:3.0/12345 speed{id=42} 87'',
          ''1500000000000/45.0:3.0/12345 rpm{id=42,type=sensor} 3000'']"
  by code_simp

subsection \<open>Claims about the elevation\<close>

lemma int_range:
  assumes "32 \<le> int_bits env" and "- (2 ^ 31) \<le> t" and "t < 2 ^ 31"
  shows "- (2 ^ (int_bits env - 1)) \<le> (t::int) \<and> t < 2 ^ (int_bits env - 1)"
proof -
  from assms(1) have "(2::int) ^ 31 \<le> 2 ^ (int_bits env - 1)"
    by (intro power_increasing) auto
  with assms(2,3) show ?thesis by linarith
qed

lemma go_int_in_range:
  assumes "- (2 ^ (int_bits env - 1)) \<le> trunc y" and "trunc y < 2 ^ (int_bits env - 1)"
  shows "go_int env (Finite y) = trunc y"
  using assms by (simp add: go_int_def)

lemma mul_12345: "f64_mul (f64_round (12345 / 1000)) (Finite 1000) = Finite 12345"
  by code_simp

lemma mul_123456:
  "f64_mul (f64_round (123456 / 10000)) (Finite 1000) = Finite (1696766343983923 / 137438953472)"
  by code_simp

lemma trunc_12345: "trunc 12345 = 12345"
  by code_simp

lemma trunc_123456: "trunc (1696766343983923 / 137438953472) = 12345"
  by code_simp

lemma Itoa_12345: "Itoa 12345 = ''12345''"
  by code_simp

lemma Itoa_0: "Itoa 0 = ''0''"
  by code_simp

lemma altitude_12345:
  assumes "32 \<le> int_bits env"
  shows "altitude_of env (f64_round (12345 / 1000)) = ''12345''"
proof -
  from int_range [OF assms, of "trunc 12345"]
  have "go_int env (Finite 12345) = trunc 12345"
    by (intro go_int_in_range) (simp_all only: trunc_12345, simp_all)
  then have "go_int env (Finite 12345) = 12345"
    by (simp only: trunc_12345)
  then show ?thesis
    unfolding altitude_of_def mul_12345 by (simp only: Itoa_12345)
qed

lemma altitude_123456:
  assumes "32 \<le> int_bits env"
  shows "altitude_of env (f64_round (123456 / 10000)) = ''12345''"
proof -
  from int_range [OF assms, of "trunc (1696766343983923 / 137438953472)"]
  have "go_int env (Finite (1696766343983923 / 137438953472)) =
      trunc (1696766343983923 / 137438953472)"
    by (intro go_int_in_range) (simp_all only: trunc_123456, simp_all)
  then have "go_int env (Finite (1696766343983923 / 137438953472)) = 12345"
    by (simp only: trunc_123456)
  then show ?thesis
    unfolding altitude_of_def mul_123456 by (simp only: Itoa_12345)
qed

lemma altitude_0: "altitude_of env (Finite 0) = ''0''"
proof -
  have "f64_mul (Finite 0) (Finite 1000) = Finite 0" by (simp add: f64_round_def)
  moreover have "go_int env (Finite 0) = 0" by (simp add: go_int_def trunc_def)
  ultimately show ?thesis by (simp add: altitude_of_def Itoa_0)
qed


lemma log_err_logged: "[E e] \<in> set (logs (log_err (Some e) w) @ l)"
  by (simp add: log_err_def Println_def)

text \<open>
  C4, as amended. In \<^verbatim>\<open>part_000\<close> and \<^verbatim>\<open>part_001\<close> the elevation parameter is parsed
  as a \<^verbatim>\<open>float64\<close>, multiplied by \<^verbatim>\<open>1000.0\<close> in binary64 arithmetic and converted to
  \<^verbatim>\<open>int\<close>, which truncates toward zero whenever the product fits the type: with \<open>i\<close>
  the value and \<open>err\<close> the error that \<^verbatim>\<open>ParseFloat\<close> returns,
  \<^item> every record forwarded carries the decimal rendering of that integer as its
    elevation, and the other fields are the strings of the request, unvalidated;
  \<^item> an error does not abort the request: when the request passes the gates and the
    forwarding calls succeed, the handler returns, every call due is made, and the
    error is in the log;
  \<^item> the value used after an error is the one that came with it: zero, rendered \<^verbatim>\<open>0\<close>,
    for a string that is no number (what becomes of the infinity that comes with a
    range error is left to the platform);
  \<^item> the nearest \<^verbatim>\<open>float64\<close> of \<^verbatim>\<open>12.345\<close> gives \<^verbatim>\<open>12345\<close>, the one of \<^verbatim>\<open>12.3456\<close>
    gives \<^verbatim>\<open>12345\<close> too (truncated, not rounded), and zero gives \<^verbatim>\<open>0\<close>.
\<close>

theorem elevation_conversion:
  assumes "ParseFloat env (Get q ''kff1010'') = (i, err)"
  shows
    "(\<forall>req \<in> set (forwarded w (query_p000 env g q w)).
        \<exists>key val. torqueKeys g key = Some val \<and>
          Body req = Print
            \<lparr>TS = Get q ''time'', Lat = Get q ''kff1006'', Long = Get q ''kff1005'',
             Elev = Itoa (go_int env (f64_mul i (Finite 1000))),
             Name = MetricName val,
             Labels = (if Tag val = [] then ''id='' @ Get q ''id''
                       else ''id='' @ Get q ''id'' @ '','' @ Tag val),
             Value = Get q key\<rparr>)
     \<and> (\<forall>req \<in> set (forwarded w (query_p001 env g q w)).
        \<exists>key val. torqueKeys g key = Some val \<and>
          Body req = Print
            \<lparr>TS = Get q ''time'' @ ''000'', Lat = Get q ''kff1006'', Long = Get q ''kff1005'',
             Elev = Itoa (go_int env (f64_mul i (Finite 1000))),
             Name = MetricName val,
             Labels = (if Tag val = [] then ''id='' @ Get q ''id''
                       else ''id='' @ Get q ''id'' @ '','' @ Tag val),
             Value = Get q key\<rparr>)
     \<and> (valid_url env (update_url g) \<and> answers_200 env \<and>
        \<not> stringInSlice (Get q ''eml'') (users g) \<and> Get q ''kff1005'' \<noteq> [] \<and>
        Get q ''kff1006'' \<noteq> [] \<and> Get q ''kff1010'' \<noteq> [] \<longrightarrow>
        (\<exists>w'. query_p000 env g q w = Inr w' \<and>
              posts w' = posts w @ calls g (record_p000 env q) (map fst q) \<and>
              (\<forall>e. err = Some e \<longrightarrow> [E e] \<in> set (logs w'))))
     \<and> (valid_url env (update_url g) \<and> answers_200 env \<and>
        Get q ''eml'' \<noteq> user g \<and> Get q ''kff1005'' \<noteq> [] \<and>
        Get q ''kff1006'' \<noteq> [] \<and> Get q ''kff1010'' \<noteq> [] \<longrightarrow>
        (\<exists>w'. query_p001 env g q w = Inr w' \<and>
              posts w' = posts w @ calls g (record_p001 env q) (map fst q) \<and>
              (\<forall>e. err = Some e \<longrightarrow> [E e] \<in> set (logs w'))))
     \<and> (\<forall>x y. i = Finite x \<and> f64_round (x * 1000) = Finite y \<and>
          - (2 ^ (int_bits env - 1)) \<le> trunc y \<and> trunc y < 2 ^ (int_bits env - 1) \<longrightarrow>
          go_int env (f64_mul i (Finite 1000)) = trunc y)
     \<and> (i = Finite 0 \<longrightarrow> Itoa (go_int env (f64_mul i (Finite 1000))) = ''0'')
     \<and> (i = f64_round (12345 / 1000) \<and> 32 \<le> int_bits env \<longrightarrow>
          Itoa (go_int env (f64_mul i (Finite 1000))) = ''12345'')
     \<and> (i = f64_round (123456 / 10000) \<and> 32 \<le> int_bits env \<longrightarrow>
          Itoa (go_int env (f64_mul i (Finite 1000))) = ''12345'')"
proof -
  have alt: "altitude_of env (fst (ParseFloat env (Get q ''kff1010''))) =
      Itoa (go_int env (f64_mul i (Finite 1000)))"
    using assms by (simp add: altitude_of_def)
  have err: "snd (ParseFloat env (Get q ''kff1010'')) = err"
    using assms by simp
  have c1: "\<exists>key val. torqueKeys g key = Some val \<and>
          Body req = Print
            \<lparr>TS = Get q ''time'', Lat = Get q ''kff1006'', Long = Get q ''kff1005'',
             Elev = Itoa (go_int env (f64_mul i (Finite 1000))),
             Name = MetricName val,
             Labels = (if Tag val = [] then ''id='' @ Get q ''id''
                       else ''id='' @ Get q ''id'' @ '','' @ Tag val),
             Value = Get q key\<rparr>"
    if "req \<in> set (forwarded w (query_p000 env g q w))" for req
  proof -
    from forwarded_p000_record [OF that] obtain key val where
      "torqueKeys g key = Some val" "req = request_for g (record_p000 env q key val)"
      by blast
    then show ?thesis
      by (auto simp: request_for_def record_p000_def alt)
  qed
  have c2: "\<exists>key val. torqueKeys g key = Some val \<and>
          Body req = Print
            \<lparr>TS = Get q ''time'' @ ''000'', Lat = Get q ''kff1006'', Long = Get q ''kff1005'',
             Elev = Itoa (go_int env (f64_mul i (Finite 1000))),
             Name = MetricName val,
             Labels = (if Tag val = [] then ''id='' @ Get q ''id''
                       else ''id='' @ Get q ''id'' @ '','' @ Tag val),
             Value = Get q key\<rparr>"
    if "req \<in> set (forwarded w (query_p001 env g q w))" for req
  proof -
    from forwarded_p001_record [OF that] obtain key val where
      "torqueKeys g key = Some val" "req = request_for g (record_p001 env q key val)"
      by blast
    then show ?thesis
      by (auto simp: request_for_def record_p001_def record_p000_def alt)
  qed
  have c3: "\<exists>w'. query_p000 env g q w = Inr w' \<and>
              posts w' = posts w @ calls g (record_p000 env q) (map fst q) \<and>
              (\<forall>e. err = Some e \<longrightarrow> [E e] \<in> set (logs w'))"
    if "valid_url env (update_url g)" "answers_200 env"
      "\<not> stringInSlice (Get q ''eml'') (users g)" "Get q ''kff1005'' \<noteq> []"
      "Get q ''kff1006'' \<noteq> []" "Get q ''kff1010'' \<noteq> []"
    using query_p000_returns [OF that, of w] log_err_logged unfolding err by metis
  have c4: "\<exists>w'. query_p001 env g q w = Inr w' \<and>
              posts w' = posts w @ calls g (record_p001 env q) (map fst q) \<and>
              (\<forall>e. err = Some e \<longrightarrow> [E e] \<in> set (logs w'))"
    if "valid_url env (update_url g)" "answers_200 env"
      "Get q ''eml'' \<noteq> user g" "Get q ''kff1005'' \<noteq> []"
      "Get q ''kff1006'' \<noteq> []" "Get q ''kff1010'' \<noteq> []"
    using query_p001_returns [OF that, of w] log_err_logged unfolding err by metis
  have c5: "go_int env (f64_mul i (Finite 1000)) = trunc y"
    if "i = Finite x" "f64_round (x * 1000) = Finite y"
      "- (2 ^ (int_bits env - 1)) \<le> trunc y" "trunc y < 2 ^ (int_bits env - 1)" for x y
    using that go_int_in_range [of env y] by simp
  have c6: "Itoa (go_int env (f64_mul i (Finite 1000))) = ''0''" if "i = Finite 0"
    using altitude_0 [of env] that by (simp add: altitude_of_def)
  have c7: "Itoa (go_int env (f64_mul i (Finite 1000))) = ''12345''"
    if "i = f64_round (12345 / 1000)" "32 \<le> int_bits env"
    using altitude_12345 [OF that(2)] unfolding altitude_of_def that(1) .
  have c8: "Itoa (go_int env (f64_mul i (Finite 1000))) = ''12345''"
    if "i = f64_round (123456 / 10000)" "32 \<le> int_bits env"
    using altitude_123456 [OF that(2)] unfolding altitude_of_def that(1) .
  from c1 c2 c3 c4 c5 c6 c7 c8 show ?thesis by blast
qed


theorem elevation_conversion_witness:
  "ParseFloat env_ok (Get (q_ex ''mallory@example.com'' ''abc'') ''kff1010'')
     = (Finite 0, Some ''invalid syntax'')
   \<and> valid_url env_ok (update_url g_ex) \<and> answers_200 env_ok
   \<and> \<not> stringInSlice (Get (q_ex ''mallory@example.com'' ''abc'') ''eml'') (users g_ex)
   \<and> (\<exists>w'. query_p000 env_ok g_ex (q_ex ''mallory@example.com'' ''abc'') w_ex = Inr w' \<and>
          posts w' = posts w_ex @ calls g_ex (record_p000 env_ok (q_ex ''mallory@example.com'' ''abc''))
                                   (map fst (q_ex ''mallory@example.com'' ''abc'')) \<and>
          [E ''invalid syntax''] \<in> set (logs w'))
   \<and> Itoa (go_int env_ok (f64_mul (Finite 0) (Finite 1000))) = ''0''
   \<and> map Body (forwarded w_ex (query_p000 env_ok g_ex (q_ex ''mallory@example.com'' ''abc'') w_ex))
       = [''1500000000000/45.0:3.0/0 speed{id=42} 87'',
          ''1500000000000/45.0:3.0/0 rpm{id=42,type=sensor} 3000'']
   \<and> ParseFloat env_ok (Get (q_ex ''mallory@example.com'' ''12.345'') ''kff1010'')
     = (f64_round (12345 / 1000), None)
   \<and> 32 \<le> int_bits env_ok
   \<and> Itoa (go_int env_ok (f64_mul (f64_round (12345 / 1000)) (Finite 1000))) = ''12345''"
proof -
  let ?qa = "q_ex ''mallory@example.com'' ''abc''"
  let ?qb = "q_ex ''mallory@example.com'' ''12.345''"
  have pa: "ParseFloat env_ok (Get ?qa ''kff1010'') = (Finite 0, Some ''invalid syntax'')"
    by (simp add: env_ok_def ParseFloat_ex_def Get_def q_ex_def)
  have pb: "ParseFloat env_ok (Get ?qb ''kff1010'') = (f64_round (12345 / 1000), None)"
    by (simp add: env_ok_def ParseFloat_ex_def Get_def q_ex_def)
  have v: "valid_url env_ok (update_url g_ex)" by (simp add: env_ok_def)
  have a: "answers_200 env_ok" by (simp add: answers_200_def env_ok_def)
  have b: "32 \<le> int_bits env_ok" by (simp add: env_ok_def)
  have gate: "\<not> stringInSlice (Get ?qa ''eml'') (users g_ex)" "Get ?qa ''kff1005'' \<noteq> []"
    "Get ?qa ''kff1006'' \<noteq> []" "Get ?qa ''kff1010'' \<noteq> []"
    by (simp_all add: Get_def q_ex_def g_ex_def)
  note A = elevation_conversion [OF pa, of w_ex g_ex]
  note B = elevation_conversion [OF pb, of w_ex g_ex]
  from A v a gate
  have run: "\<exists>w'. query_p000 env_ok g_ex ?qa w_ex = Inr w' \<and>
          posts w' = posts w_ex @ calls g_ex (record_p000 env_ok ?qa) (map fst ?qa) \<and>
          [E ''invalid syntax''] \<in> set (logs w')"
    by blast
  from A have zero: "Itoa (go_int env_ok (f64_mul (Finite 0) (Finite 1000))) = ''0''"
    by blast
  from B b have ex: "Itoa (go_int env_ok (f64_mul (f64_round (12345 / 1000)) (Finite 1000))) = ''12345''"
    by blast
  have m: "map Body (forwarded w_ex (query_p000 env_ok g_ex ?qa w_ex))
       = [''1500000000000/45.0:3.0/0 speed{id=42} 87'',
          ''1500000000000/45.0:3.0/0 rpm{id=42,type=sensor} 3000'']"
    by code_simp
  from pa v a gate(1) run zero m pb b ex show ?thesis by (intro conjI)
qed

text \<open>
  The claim as stated fails on a numeral beyond the range of \<^verbatim>\<open>float64\<close>:
  \<^verbatim>\<open>ParseFloat\<close> reports a range error and returns an infinity, the request goes on,
  and the elevation forwarded is what the platform makes of the infinity, here the
  smallest \<^verbatim>\<open>int\<close>, not zero.
\<close>

theorem elevation_after_range_error:
  "ParseFloat env_ok (Get (q_ex ''mallory@example.com'' ''1e400'') ''kff1010'')
     = (PosInf, Some ''value out of range'')
   \<and> map Body (forwarded w_ex (query_p000 env_ok g_ex (q_ex ''mallory@example.com'' ''1e400'') w_ex))
       = [''1500000000000/45.0:3.0/-9223372036854775808 speed{id=42} 87'',
          ''1500000000000/45.0:3.0/-9223372036854775808 rpm{id=42,type=sensor} 3000'']
   \<and> map Body (forwarded w_ex (query_p001 env_ok g_ex (q_ex ''mallory@example.com'' ''1e400'') w_ex))
       = [''1500000000000000/45.0:3.0/-9223372036854775808 speed{id=42} 87'',
          ''1500000000000000/45.0:3.0/-9223372036854775808 rpm{id=42,type=sensor} 3000'']"
  by code_simp

end
